theory Spec2Isabelle
  imports Complex_Main "HOL-Library.Sublist"
begin

section \<open>Python values and the operations the code applies to them\<close>

text \<open>
  The cover engine of \<^verbatim>\<open>game_manager.py\<close> handles values decoded from JSON (server
  answers, the library file) with Python's dynamically typed operations. A decoded value is
  a \<open>json\<close>; an operation that Python would abort with an exception returns \<open>Inl\<close>.
  Python strings are modelled as lists of code points below 256, one \<open>char\<close> each.
\<close>

datatype exn = AttributeError | KeyError | TypeError | IndexError | OSError

datatype json =
    JNull
  | JBool bool
  | JInt int
  | JFloat rat
  | JStr string
  | JList "json list"
  | JDict "(string \<times> json) list"

text \<open>Truth value of an object, as \<^verbatim>\<open>if x:\<close> and \<^verbatim>\<open>x and y\<close> test it.\<close>

fun truthy :: "json \<Rightarrow> bool" where
  "truthy JNull = False"
| "truthy (JBool b) = b"
| "truthy (JInt i) = (i \<noteq> 0)"
| "truthy (JFloat r) = (r \<noteq> 0)"
| "truthy (JStr s) = (s \<noteq> [])"
| "truthy (JList xs) = (xs \<noteq> [])"
| "truthy (JDict kvs) = (kvs \<noteq> [])"

text \<open>\<^verbatim>\<open>obj.get(key, default)\<close>: only a dict has the method.\<close>

fun py_get_default :: "json \<Rightarrow> string \<Rightarrow> json \<Rightarrow> exn + json" where
  "py_get_default (JDict kvs) k d = Inr (case map_of kvs k of None \<Rightarrow> d | Some v \<Rightarrow> v)"
| "py_get_default _ k d = Inl AttributeError"

definition py_get :: "json \<Rightarrow> string \<Rightarrow> exn + json" where
  "py_get obj k = py_get_default obj k JNull"

text \<open>\<^verbatim>\<open>obj['key']\<close> with a string key.\<close>

fun py_item :: "json \<Rightarrow> string \<Rightarrow> exn + json" where
  "py_item (JDict kvs) k = (case map_of kvs k of None \<Rightarrow> Inl KeyError | Some v \<Rightarrow> Inr v)"
| "py_item _ k = Inl TypeError"

text \<open>\<^verbatim>\<open>obj[0]\<close>. The keys of a decoded dict are strings, so \<open>0\<close> is never one.\<close>

fun py_first :: "json \<Rightarrow> exn + json" where
  "py_first (JList []) = Inl IndexError"
| "py_first (JList (x # xs)) = Inr x"
| "py_first (JStr []) = Inl IndexError"
| "py_first (JStr (c # cs)) = Inr (JStr [c])"
| "py_first (JDict kvs) = Inl KeyError"
| "py_first _ = Inl TypeError"

text \<open>The elements a \<^verbatim>\<open>for\<close> loop visits.\<close>

fun py_iter :: "json \<Rightarrow> exn + json list" where
  "py_iter (JList xs) = Inr xs"
| "py_iter (JDict kvs) = Inr (map (\<lambda>kv. JStr (fst kv)) kvs)"
| "py_iter (JStr s) = Inr (map (\<lambda>c. JStr [c]) s)"
| "py_iter _ = Inl TypeError"

text \<open>\<^verbatim>\<open>obj[:3]\<close>.\<close>

fun py_slice3 :: "json \<Rightarrow> exn + json" where
  "py_slice3 (JList xs) = Inr (JList (take 3 xs))"
| "py_slice3 (JStr s) = Inr (JStr (take 3 s))"
| "py_slice3 _ = Inl TypeError"

text \<open>\<^verbatim>\<open>obj == n\<close> for an integer literal \<open>n\<close>: numbers compare by value, \<open>True\<close> is 1.\<close>

fun py_eq_int :: "json \<Rightarrow> int \<Rightarrow> bool" where
  "py_eq_int (JInt i) n = (i = n)"
| "py_eq_int (JFloat r) n = (r = of_int n)"
| "py_eq_int (JBool b) n = ((if b then 1 else 0) = n)"
| "py_eq_int _ n = False"

text \<open>\<^verbatim>\<open>obj > 0\<close>: defined on numbers only.\<close>

fun py_gt_zero :: "json \<Rightarrow> exn + bool" where
  "py_gt_zero (JInt i) = Inr (0 < i)"
| "py_gt_zero (JFloat r) = Inr (0 < r)"
| "py_gt_zero (JBool b) = Inr b"
| "py_gt_zero _ = Inl TypeError"

text \<open>Truth value of an optional string argument (\<^verbatim>\<open>if app_id:\<close>).\<close>

definition truthy_str :: "string option \<Rightarrow> bool" where
  "truthy_str s = (case s of None \<Rightarrow> False | Some t \<Rightarrow> t \<noteq> [])"


section \<open>The environment: libraries and the outside world\<close>

text \<open>
  What the standard library and the network answer is not part of the repository. It is
  collected in one record that every operation takes as its first argument. An answer of
  the outside world may depend on everything done before: the oracles are indexed by the
  number of I/O events so far.
  \<^item> \<open>urlopen n url\<close>: what \<^verbatim>\<open>urllib.request.urlopen\<close> does with the request for \<open>url\<close>: a
    response with status and body, an \<^verbatim>\<open>HTTPError\<close> with its code, or any other exception;
  \<^item> \<open>json_loads body\<close>: \<^verbatim>\<open>json.loads\<close>, \<open>None\<close> where it raises;
  \<^item> \<open>md5_hexdigest s\<close>: \<^verbatim>\<open>hashlib.md5(s.encode()).hexdigest()\<close>;
  \<^item> \<open>url_quote\<close>, \<open>url_encode\<close>: \<^verbatim>\<open>urllib.parse.quote\<close> and \<^verbatim>\<open>urlencode\<close>;
  \<^item> \<open>py_str\<close>: \<^verbatim>\<open>str(x)\<close> of a decoded value;
  \<^item> \<open>path_name\<close>, \<open>path_join\<close>: \<^verbatim>\<open>Path(p).name\<close> and \<^verbatim>\<open>str(dir / name)\<close>;
  \<^item> \<open>has_ddg\<close>, \<open>has_icoextract\<close>: whether the optional libraries were imported;
  \<^item> \<open>ddgs_images n query\<close>: the results of the image search, \<open>None\<close> where it raises;
  \<^item> \<open>exe_icons n path\<close>: the icons of an executable, \<open>None\<close> where reading them raises;
  \<^item> \<open>can_write path\<close>: whether \<^verbatim>\<open>open(path, 'wb')\<close> and the write go through;
  \<^item> \<open>windows_flavour\<close>: whether \<^verbatim>\<open>pathlib\<close> is the Windows flavour, whose \<^verbatim>\<open>glob\<close> matches
    names without regard to case.
\<close>

datatype http_result =
    Response nat string
  | HTTPError nat
  | URLError

datatype io = HttpGet string | ImageSearch string | IconRead string

record env =
  urlopen :: "nat \<Rightarrow> string \<Rightarrow> http_result"
  json_loads :: "string \<Rightarrow> json option"
  md5_hexdigest :: "string \<Rightarrow> string"
  url_quote :: "string \<Rightarrow> string"
  url_encode :: "(string \<times> string) list \<Rightarrow> string"
  py_str :: "json \<Rightarrow> string"
  path_name :: "string \<Rightarrow> string"
  path_join :: "string \<Rightarrow> string \<Rightarrow> string"
  has_ddg :: bool
  has_icoextract :: bool
  ddgs_images :: "nat \<Rightarrow> string \<Rightarrow> json list option"
  exe_icons :: "nat \<Rightarrow> string \<Rightarrow> string list option"
  can_write :: "string \<Rightarrow> bool"
  windows_flavour :: bool

section \<open>Name normalisation\<close>

subsection \<open>Character classes\<close>

text \<open>
  \<^verbatim>\<open>\s\<close>, \<^verbatim>\<open>\d\<close>, \<^verbatim>\<open>\w\<close> and \<^verbatim>\<open>str.lower\<close> as Python has them on the code points below 256.
  The two dashes of the separator class of \<^verbatim>\<open>_clean_name\<close> (U+2013, U+2014) lie above that
  range and match no character of a modelled string.
\<close>

definition is_space :: "char \<Rightarrow> bool" where
  "is_space c = (let n = (of_char c :: nat) in
     (9 \<le> n \<and> n \<le> 13) \<or> (28 \<le> n \<and> n \<le> 32) \<or> n = 133 \<or> n = 160)"

definition is_digit :: "char \<Rightarrow> bool" where
  "is_digit c = (let n = (of_char c :: nat) in 48 \<le> n \<and> n \<le> 57)"

definition is_word :: "char \<Rightarrow> bool" where
  "is_word c = (let n = (of_char c :: nat) in
     (48 \<le> n \<and> n \<le> 57) \<or> (65 \<le> n \<and> n \<le> 90) \<or> n = 95 \<or> (97 \<le> n \<and> n \<le> 122)
     \<or> n = 170 \<or> n = 178 \<or> n = 179 \<or> n = 181 \<or> n = 185 \<or> n = 186
     \<or> (188 \<le> n \<and> n \<le> 190) \<or> (192 \<le> n \<and> n \<le> 214) \<or> (216 \<le> n \<and> n \<le> 246)
     \<or> 248 \<le> n)"

definition py_lower :: "char \<Rightarrow> char" where
  "py_lower c = (let n = (of_char c :: nat) in
     if (65 \<le> n \<and> n \<le> 90) \<or> (192 \<le> n \<and> n \<le> 214) \<or> (216 \<le> n \<and> n \<le> 222)
     then char_of (n + 32) else c)"

subsection \<open>Patterns\<close>

text \<open>
  The patterns of \<^verbatim>\<open>_clean_name\<close> and \<^verbatim>\<open>re.sub(pattern, '', n)\<close> on them. A position is
  the character before it (none at the start) and the text after it. \<open>ends\<close> lists the
  positions where a match of the pattern starting here can end, in the order in which the
  backtracking matcher of \<^verbatim>\<open>re\<close> finds them: the first is the match it takes. \<open>sub_from\<close>
  scans from the left, drops each match it finds and goes on behind it. \<open>ic\<close> is the flag
  \<^verbatim>\<open>re.IGNORECASE\<close>.
\<close>

datatype atom = Lit char | Digit | Space | AnyChar | Range char char | OneOf "atom list"

datatype rx =
    Eps
  | Atom atom
  | Cat rx rx
  | Alt rx rx
  | Star rx
  | LazyStar rx
  | Opt rx
  | WordB
  | Bol
  | Eol

fun atom_ok :: "bool \<Rightarrow> atom \<Rightarrow> char \<Rightarrow> bool" where
  "atom_ok ic (Lit a) c = (if ic then py_lower c = py_lower a else c = a)"
| "atom_ok ic Digit c = is_digit c"
| "atom_ok ic Space c = is_space c"
| "atom_ok ic AnyChar c = (c \<noteq> CHR 0x0A)"
| "atom_ok ic (Range lo hi) c =
     ((of_char lo \<le> (of_char c :: nat) \<and> (of_char c :: nat) \<le> of_char hi)
      \<or> (ic \<and> of_char lo \<le> (of_char (py_lower c) :: nat)
            \<and> (of_char (py_lower c) :: nat) \<le> of_char hi))"
| "atom_ok ic (OneOf as) c = (\<exists>a \<in> set as. atom_ok ic a c)"

type_synonym pos = "char option \<times> string"

definition at_boundary :: "pos \<Rightarrow> bool" where
  "at_boundary p =
     ((case fst p of None \<Rightarrow> False | Some c \<Rightarrow> is_word c)
      \<noteq> (case snd p of [] \<Rightarrow> False | c # cs \<Rightarrow> is_word c))"

definition progress :: "pos \<Rightarrow> pos \<Rightarrow> bool" where
  "progress p q = (length (snd q) < length (snd p))"

fun star :: "(pos \<Rightarrow> pos list) \<Rightarrow> nat \<Rightarrow> pos \<Rightarrow> pos list" where
  "star f 0 p = [p]"
| "star f (Suc n) p = concat (map (star f n) (filter (progress p) (f p))) @ [p]"

fun lazy_star :: "(pos \<Rightarrow> pos list) \<Rightarrow> nat \<Rightarrow> pos \<Rightarrow> pos list" where
  "lazy_star f 0 p = [p]"
| "lazy_star f (Suc n) p = p # concat (map (lazy_star f n) (filter (progress p) (f p)))"

primrec ends :: "bool \<Rightarrow> rx \<Rightarrow> pos \<Rightarrow> pos list" where
  "ends ic Eps p = [p]"
| "ends ic (Atom a) p =
     (case snd p of [] \<Rightarrow> [] | c # cs \<Rightarrow> if atom_ok ic a c then [(Some c, cs)] else [])"
| "ends ic (Cat r s) p = concat (map (ends ic s) (ends ic r p))"
| "ends ic (Alt r s) p = ends ic r p @ ends ic s p"
| "ends ic (Star r) p = star (ends ic r) (length (snd p)) p"
| "ends ic (LazyStar r) p = lazy_star (ends ic r) (length (snd p)) p"
| "ends ic (Opt r) p = ends ic r p @ [p]"
| "ends ic WordB p = (if at_boundary p then [p] else [])"
| "ends ic Bol p = (if fst p = None then [p] else [])"
| "ends ic Eol p = (if snd p = [] \<or> snd p = [CHR 0x0A] then [p] else [])"

definition match_at :: "bool \<Rightarrow> rx \<Rightarrow> pos \<Rightarrow> nat option" where
  "match_at ic r p =
     (case ends ic r p of [] \<Rightarrow> None | q # qs \<Rightarrow> Some (length (snd p) - length (snd q)))"

function sub_from :: "bool \<Rightarrow> rx \<Rightarrow> char option \<Rightarrow> string \<Rightarrow> string" where
  "sub_from ic r prev [] = []"
| "sub_from ic r prev (c # cs) =
     (case match_at ic r (prev, c # cs) of
        Some (Suc n) \<Rightarrow> sub_from ic r (Some (last (c # take n cs))) (drop n cs)
      | _ \<Rightarrow> c # sub_from ic r (Some c) cs)"
  by pat_completeness auto
termination
  by (relation "measure (\<lambda>(ic, r, prev, s). length s)") auto

definition re_sub :: "bool \<Rightarrow> rx \<Rightarrow> string \<Rightarrow> string" where
  "re_sub ic r s = sub_from ic r None s"

definition lits :: "string \<Rightarrow> rx" where
  "lits s = foldr (\<lambda>c r. Cat (Atom (Lit c)) r) s Eps"

definition Plus :: "rx \<Rightarrow> rx" where
  "Plus r = Cat r (Star r)"

subsection \<open>\<^verbatim>\<open>IconExtractor._clean_name\<close>\<close>

definition junk :: "rx list" where
  "junk =
     [lits ''TENOKE'', lits ''RUNE'', lits ''DODI'', lits ''FitGirl'', lits ''Repack'',
      lits ''EMPRESS'', lits ''CODEX'', lits ''SKIDROW'', lits ''CPY'', lits ''PLAZA'',
      lits ''HOODLUM'', lits ''RAZOR1911'', lits ''TiNYiSO'', lits ''PROPHET'',
      lits ''DARKSiDERS'', lits ''ANOMALY'', lits ''SiMPLEX'',
      lits ''GOG'', lits ''Portable'', lits ''Steam'', lits ''Epic'',
      Cat (Atom (Lit CHR ''v'')) (Cat (Plus (Atom Digit))
        (Cat (Star (Cat (Atom (Lit CHR ''.'')) (Plus (Atom Digit))))
          (Opt (Atom (Range CHR ''a'' CHR ''z''))))),
      Cat (lits ''Build'') (Cat (Star (Atom Space)) (Plus (Atom Digit))),
      Cat (lits ''Update'') (Cat (Star (Atom Space)) (Plus (Atom Digit))),
      lits ''DX11'', lits ''DX12'', lits ''x64'', lits ''x86'',
      Cat (lits ''Multi'') (Plus (Atom Digit)), lits ''DLC'',
      lits ''VR'', lits ''HDR'', lits ''4K'', lits ''UHD'',
      lits ''GOTY'', lits ''Game of the Year'',
      lits ''Enhanced Edition'', lits ''Definitive Edition'', lits ''Complete Edition'',
      lits ''Ultimate Edition'', lits ''Deluxe Edition'', lits ''Premium Edition'',
      lits ''Gold Edition'', lits ''Legendary Edition'', lits ''Anniversary Edition'',
      lits ''Early Access'', lits ''Demo'', lits ''Alpha'', lits ''Beta'', lits ''Preview'']"

definition whole_word :: "rx \<Rightarrow> rx" where
  "whole_word j = Cat WordB (Cat j WordB)"

definition bracketed :: rx where
  "bracketed = Cat (Atom (Lit CHR ''['')) (Cat (LazyStar (Atom AnyChar)) (Atom (Lit CHR '']'')))"

definition year_parens :: rx where
  "year_parens = Cat (Atom (Lit CHR ''(''))
     (Cat (Alt (lits ''19'') (lits ''20''))
       (Cat (Atom Digit) (Cat (Atom Digit) (Atom (Lit CHR '')'')))))"

definition parenthesised :: rx where
  "parenthesised = Cat (Atom (Lit CHR ''('')) (Cat (LazyStar (Atom AnyChar)) (Atom (Lit CHR '')'')))"

definition separator :: atom where
  "separator = OneOf [Space, Lit CHR ''-'', Lit CHR ''_'', Lit CHR ''.'', Lit CHR '':'']"

definition edge_separators :: rx where
  "edge_separators = Alt (Cat Bol (Plus (Atom separator))) (Cat (Plus (Atom separator)) Eol)"

definition replace_char :: "char \<Rightarrow> char \<Rightarrow> string \<Rightarrow> string" where
  "replace_char old new s = map (\<lambda>c. if c = old then new else c) s"

fun split_from :: "string \<Rightarrow> string \<Rightarrow> string list" where
  "split_from word [] = (if word = [] then [] else [rev word])"
| "split_from word (c # cs) =
     (if is_space c then (if word = [] then split_from [] cs else rev word # split_from [] cs)
      else split_from (c # word) cs)"

definition py_split :: "string \<Rightarrow> string list" where
  "py_split s = split_from [] s"

fun py_join :: "string \<Rightarrow> string list \<Rightarrow> string" where
  "py_join sep [] = []"
| "py_join sep [w] = w"
| "py_join sep (w # ws) = w @ sep @ py_join sep ws"

definition clean_name :: "string \<Rightarrow> string" where
  "clean_name name =
     (let n = replace_char CHR ''_'' CHR '' '' (replace_char CHR ''.'' CHR '' '' name);
          n = foldl (\<lambda>n j. re_sub True (whole_word j) n) n junk;
          n = re_sub False bracketed n;
          n = re_sub False year_parens n;
          n = re_sub False parenthesised n;
          n = re_sub False edge_separators n
      in py_join '' '' (py_split n))"


text \<open>
  Vocabulary for the normaliser: \<open>has_match\<close> says that \<^verbatim>\<open>re.sub\<close> finds something to replace
  (a non-empty match at some position, scanning as \<open>sub_from\<close> does); \<open>has_junk\<close> says that
  one of the patterns of \<^verbatim>\<open>_clean_name\<close> does; a word of \<^verbatim>\<open>str.split\<close> is non-empty and
  free of whitespace.
\<close>

fun has_match :: "bool \<Rightarrow> rx \<Rightarrow> char option \<Rightarrow> string \<Rightarrow> bool" where
  "has_match ic r prev [] = False"
| "has_match ic r prev (c # cs) =
     (case match_at ic r (prev, c # cs) of
        Some (Suc n) \<Rightarrow> True
      | _ \<Rightarrow> has_match ic r (Some c) cs)"

definition has_junk :: "string \<Rightarrow> bool" where
  "has_junk s =
     ((\<exists>j \<in> set junk. has_match True (whole_word j) None s)
      \<or> has_match False bracketed None s
      \<or> has_match False year_parens None s
      \<or> has_match False parenthesised None s
      \<or> has_match False edge_separators None s)"

definition word_ok :: "string \<Rightarrow> bool" where
  "word_ok w = (w \<noteq> [] \<and> (\<forall>c \<in> set w. \<not> is_space c))"


section \<open>CoverValidator\<close>

text \<open>
  The validator sees the disk through \<^verbatim>\<open>Path.exists\<close>, \<^verbatim>\<open>Path.stat\<close>, \<^verbatim>\<open>open\<close>,
  \<^verbatim>\<open>Path.glob\<close> and \<^verbatim>\<open>Path.unlink\<close>. \<open>path_exists\<close> is \<open>None\<close> where \<^verbatim>\<open>Path.exists\<close>
  raises: \<^verbatim>\<open>pathlib\<close> answers \<^verbatim>\<open>False\<close> for a missing file and passes every other
  \<^verbatim>\<open>OSError\<close> on (a name that is too long, a directory that may not be searched).
  \<open>st_size\<close> is \<open>None\<close> where \<^verbatim>\<open>stat\<close> raises. The library file is absent, present but
  failing to open, or readable text. The cache directory is absent or a list of entries;
  \<^verbatim>\<open>unlink\<close> raises on a locked entry.
\<close>

datatype lib_file = LibAbsent | LibUnreadable | LibText string

record cache_entry =
  entry_name :: string
  entry_locked :: bool

record disk =
  path_exists :: "string \<Rightarrow> bool option"
  st_size :: "string \<Rightarrow> nat option"
  library_file :: lib_file
  cache_dir :: "cache_entry list option"

text \<open>
  \<^verbatim>\<open>path.exists()\<close> stands outside the \<^verbatim>\<open>try\<close> of \<^verbatim>\<open>validate_cache_file\<close>: what it raises
  leaves the method.
\<close>

definition validate_cache_file :: "disk \<Rightarrow> string \<Rightarrow> exn + bool" where
  "validate_cache_file d file_path =
     (if file_path = [] then Inr False
      else
        (case path_exists d file_path of
           None \<Rightarrow> Inl OSError
         | Some False \<Rightarrow> Inr False
         | Some True \<Rightarrow>
             (case st_size d file_path of
                None \<Rightarrow> Inr False
              | Some n \<Rightarrow> if n < 2048 then Inr False else Inr True)))"















section \<open>Cover resolution\<close>

text \<open>
  The outside world as the resolver changes it: the log of I/O attempts (every URL handed
  to \<^verbatim>\<open>urlopen\<close>, every image search, every executable opened for its icons) and the
  files written. The waits of the code (\<^verbatim>\<open>time.sleep\<close>, \<^verbatim>\<open>_wait_rate_limit\<close>) change no
  value and are left out.
\<close>

record world =
  io_log :: "io list"
  files :: "(string \<times> string) list"

definition attempt :: "io \<Rightarrow> world \<Rightarrow> world" where
  "attempt ev w = w\<lparr>io_log := io_log w @ [ev]\<rparr>"

definition write_file :: "string \<Rightarrow> string \<Rightarrow> world \<Rightarrow> world" where
  "write_file p data w = w\<lparr>files := (p, data) # files w\<rparr>"

subsection \<open>Downloads\<close>

text \<open>
  \<^verbatim>\<open>IconExtractor._download_file\<close> and \<^verbatim>\<open>CoverAPIManager._download_image\<close> have the same
  body up to the timeout. The URL may be any decoded value: \<^verbatim>\<open>urllib.request.Request\<close>
  raises inside the \<^verbatim>\<open>try\<close> on anything but a string, before any I/O.
\<close>

definition download_file :: "env \<Rightarrow> json \<Rightarrow> string \<Rightarrow> world \<Rightarrow> bool \<times> world" where
  "download_file e url save_path w =
     (case url of
        JStr u \<Rightarrow>
          (case urlopen e (length (io_log w)) u of
             Response status data \<Rightarrow>
               if status = 200 then
                 (if 2048 < length data then
                    (if can_write e save_path
                     then (True, write_file save_path data (attempt (HttpGet u) w))
                     else (False, attempt (HttpGet u) w))
                  else (False, attempt (HttpGet u) w))
               else (False, attempt (HttpGet u) w)
           | HTTPError code \<Rightarrow> (False, attempt (HttpGet u) w)
           | URLError \<Rightarrow> (False, attempt (HttpGet u) w))
      | _ \<Rightarrow> (False, w))"

definition download_image :: "env \<Rightarrow> json \<Rightarrow> string \<Rightarrow> world \<Rightarrow> bool \<times> world" where
  "download_image e url save_path w = download_file e url save_path w"

text \<open>\<^verbatim>\<open>for url in urls: if download(url, path): return True\<close>, then \<^verbatim>\<open>False\<close>.\<close>

fun first_download :: "env \<Rightarrow> json list \<Rightarrow> string \<Rightarrow> world \<Rightarrow> bool \<times> world" where
  "first_download e [] save_path w = (False, w)"
| "first_download e (url # urls) save_path w =
     (case download_file e url save_path w of
        (True, w') \<Rightarrow> (True, w')
      | (False, w') \<Rightarrow> first_download e urls save_path w')"

definition download_steam_cover :: "env \<Rightarrow> string \<Rightarrow> string \<Rightarrow> world \<Rightarrow> bool \<times> world" where
  "download_steam_cover e app_id save_path w =
     first_download e
       [JStr (''https://cdn.cloudflare.steamstatic.com/steam/apps/'' @ app_id @ ''/library_600x900.jpg''),
        JStr (''https://steamcdn-a.akamaihd.net/steam/apps/'' @ app_id @ ''/library_600x900.jpg''),
        JStr (''https://cdn.cloudflare.steamstatic.com/steam/apps/'' @ app_id @ ''/header.jpg''),
        JStr (''https://cdn.cloudflare.steamstatic.com/steam/apps/'' @ app_id @ ''/capsule_616x353.jpg'')]
       save_path w"

subsection \<open>IconExtractor: store search, image search, executable icon\<close>

text \<open>The \<^verbatim>\<open>try\<close> block of \<^verbatim>\<open>_search_steam_id_by_name\<close>: \<open>None\<close> when it raises or finds
  nothing.\<close>

definition store_search_id :: "env \<Rightarrow> http_result \<Rightarrow> string option" where
  "store_search_id e res =
     (case res of
        Response status body \<Rightarrow>
          (case json_loads e body of
             None \<Rightarrow> None
           | Some data \<Rightarrow>
               (case py_get_default data ''total'' (JInt 0) of
                  Inl x \<Rightarrow> None
                | Inr n \<Rightarrow>
                    (case py_gt_zero n of
                       Inl x \<Rightarrow> None
                     | Inr False \<Rightarrow> None
                     | Inr True \<Rightarrow>
                         (case py_item data ''items'' of
                            Inl x \<Rightarrow> None
                          | Inr items \<Rightarrow>
                              (case py_first items of
                                 Inl x \<Rightarrow> None
                               | Inr item \<Rightarrow>
                                   (case py_item item ''id'' of
                                      Inl x \<Rightarrow> None
                                    | Inr i \<Rightarrow> Some (py_str e i)))))))
      | _ \<Rightarrow> None)"

definition search_steam_id_by_name ::
  "env \<Rightarrow> string \<Rightarrow> (string \<times> string option) list \<Rightarrow> world
    \<Rightarrow> string option \<times> (string \<times> string option) list \<times> world" where
  "search_steam_id_by_name e name search_cache w =
     (let clean = clean_name name in
      if length clean < 2 then (None, search_cache, w)
      else
        (case map_of search_cache clean of
           Some cached \<Rightarrow> (cached, search_cache, w)
         | None \<Rightarrow>
             (let url = ''https://store.steampowered.com/api/storesearch/?term=''
                        @ url_quote e clean @ ''&l=english&cc=US''
              in case store_search_id e (urlopen e (length (io_log w)) url) of
                   Some appid \<Rightarrow>
                     (Some appid, (clean, Some appid) # search_cache, attempt (HttpGet url) w)
                 | None \<Rightarrow>
                     (None, (clean, None) # search_cache, attempt (HttpGet url) w))))"

text \<open>The loop over the image-search results, inside the \<^verbatim>\<open>try\<close> of
  \<^verbatim>\<open>_search_duckduckgo\<close>.\<close>

fun ddg_results :: "env \<Rightarrow> json list \<Rightarrow> string \<Rightarrow> world \<Rightarrow> bool \<times> world" where
  "ddg_results e [] save_path w = (False, w)"
| "ddg_results e (res # results) save_path w =
     (case py_item res ''image'' of
        Inl x \<Rightarrow> (False, w)
      | Inr url \<Rightarrow>
          (case download_file e url save_path w of
             (True, w') \<Rightarrow> (True, w')
           | (False, w') \<Rightarrow> ddg_results e results save_path w'))"

definition search_duckduckgo :: "env \<Rightarrow> string \<Rightarrow> string \<Rightarrow> world \<Rightarrow> bool \<times> world" where
  "search_duckduckgo e name save_path w =
     (if \<not> has_ddg e then (False, w)
      else
        (let query = clean_name name @ '' game box art vertical 600x900''
         in case ddgs_images e (length (io_log w)) query of
              None \<Rightarrow> (False, attempt (ImageSearch query) w)
            | Some results \<Rightarrow> ddg_results e results save_path (attempt (ImageSearch query) w)))"

definition extract_exe_icon :: "env \<Rightarrow> string \<Rightarrow> string \<Rightarrow> world \<Rightarrow> bool \<times> world" where
  "extract_exe_icon e exe_path save_path w =
     (if \<not> has_icoextract e \<or> exe_path = [] then (False, w)
      else
        (case exe_icons e (length (io_log w)) exe_path of
           None \<Rightarrow> (False, attempt (IconRead exe_path) w)
         | Some [] \<Rightarrow> (False, attempt (IconRead exe_path) w)
         | Some (data # others) \<Rightarrow>
             if can_write e save_path
             then (True, write_file save_path data (attempt (IconRead exe_path) w))
             else (False, attempt (IconRead exe_path) w)))"

subsection \<open>SteamGridDBClient\<close>

record sgdb_client =
  sgdb_api_key :: "string option"
  sgdb_session_cache :: "(string \<times> json list) list"

text \<open>
  \<^verbatim>\<open>_make_request\<close> returns the decoded body or \<^verbatim>\<open>None\<close>, which is \<open>JNull\<close>; a 401 clears
  the key.
\<close>

definition make_request ::
  "env \<Rightarrow> string \<Rightarrow> sgdb_client \<Rightarrow> world \<Rightarrow> json \<times> sgdb_client \<times> world" where
  "make_request e endpoint c w =
     (if \<not> truthy_str (sgdb_api_key c) then (JNull, c, w)
      else
        (let url = ''https://www.steamgriddb.com/api/v2/'' @ endpoint
         in case urlopen e (length (io_log w)) url of
              Response status body \<Rightarrow>
                if status = 200 then
                  (case json_loads e body of
                     Some data \<Rightarrow> (data, c, attempt (HttpGet url) w)
                   | None \<Rightarrow> (JNull, c, attempt (HttpGet url) w))
                else (JNull, c, attempt (HttpGet url) w)
            | HTTPError code \<Rightarrow>
                if code = 401 then (JNull, c\<lparr>sgdb_api_key := None\<rparr>, attempt (HttpGet url) w)
                else (JNull, c, attempt (HttpGet url) w)
            | URLError \<Rightarrow> (JNull, c, attempt (HttpGet url) w)))"

text \<open>The loop that keeps the 600x900 grids.\<close>

fun vertical_grids :: "json list \<Rightarrow> json list \<Rightarrow> exn + json list" where
  "vertical_grids [] urls = Inr urls"
| "vertical_grids (grid # grids) urls =
     (case py_get grid ''height'' of
        Inl x \<Rightarrow> Inl x
      | Inr h \<Rightarrow>
          if py_eq_int h 900 then
            (case py_get grid ''width'' of
               Inl x \<Rightarrow> Inl x
             | Inr wd \<Rightarrow>
                 if py_eq_int wd 600 then
                   (case py_item grid ''url'' of
                      Inl x \<Rightarrow> Inl x
                    | Inr u \<Rightarrow> vertical_grids grids (urls @ [u]))
                 else vertical_grids grids urls)
          else vertical_grids grids urls)"

text \<open>\<^verbatim>\<open>[g['url'] for g in ...]\<close>.\<close>

fun all_urls :: "json list \<Rightarrow> exn + json list" where
  "all_urls [] = Inr []"
| "all_urls (g # gs) =
     (case py_item g ''url'' of
        Inl x \<Rightarrow> Inl x
      | Inr u \<Rightarrow> (case all_urls gs of Inl x \<Rightarrow> Inl x | Inr us \<Rightarrow> Inr (u # us)))"

text \<open>\<^verbatim>\<open>data and data.get('success') and data.get('data')\<close>.\<close>

definition has_data :: "json \<Rightarrow> exn + bool" where
  "has_data data =
     (if \<not> truthy data then Inr False
      else
        (case py_get data ''success'' of
           Inl x \<Rightarrow> Inl x
         | Inr s \<Rightarrow>
             if \<not> truthy s then Inr False
             else (case py_get data ''data'' of Inl x \<Rightarrow> Inl x | Inr d \<Rightarrow> Inr (truthy d))))"

text \<open>The part of \<^verbatim>\<open>get_grids_by_steam_id\<close> and \<^verbatim>\<open>get_grids_by_game_id\<close> that turns the
  answer into \<^verbatim>\<open>urls\<close>; the two methods have it word for word.\<close>

definition grid_urls :: "json \<Rightarrow> exn + json list" where
  "grid_urls data =
     (case has_data data of
        Inl x \<Rightarrow> Inl x
      | Inr False \<Rightarrow> Inr []
      | Inr True \<Rightarrow>
          (case py_item data ''data'' of
             Inl x \<Rightarrow> Inl x
           | Inr grids \<Rightarrow>
               (case py_iter grids of
                  Inl x \<Rightarrow> Inl x
                | Inr gs \<Rightarrow>
                    (case vertical_grids gs [] of
                       Inl x \<Rightarrow> Inl x
                     | Inr urls \<Rightarrow>
                         if urls = [] then
                           (case py_slice3 grids of
                              Inl x \<Rightarrow> Inl x
                            | Inr first3 \<Rightarrow>
                                (case py_iter first3 of Inl x \<Rightarrow> Inl x | Inr ts \<Rightarrow> all_urls ts))
                         else Inr urls))))"

definition get_grids ::
  "env \<Rightarrow> string \<Rightarrow> string \<Rightarrow> sgdb_client \<Rightarrow> world
    \<Rightarrow> (exn + json list) \<times> sgdb_client \<times> world" where
  "get_grids e cache_key endpoint c w =
     (case map_of (sgdb_session_cache c) cache_key of
        Some urls \<Rightarrow> (Inr urls, c, w)
      | None \<Rightarrow>
          (case make_request e endpoint c w of
             (data, c', w') \<Rightarrow>
               (case grid_urls data of
                  Inl x \<Rightarrow> (Inl x, c', w')
                | Inr urls \<Rightarrow>
                    (Inr urls,
                     c'\<lparr>sgdb_session_cache := (cache_key, urls) # sgdb_session_cache c'\<rparr>, w'))))"

definition get_grids_by_steam_id ::
  "env \<Rightarrow> string \<Rightarrow> sgdb_client \<Rightarrow> world \<Rightarrow> (exn + json list) \<times> sgdb_client \<times> world" where
  "get_grids_by_steam_id e steam_app_id c w =
     get_grids e (''steam_'' @ steam_app_id) (''grids/steam/'' @ steam_app_id) c w"

definition get_grids_by_game_id ::
  "env \<Rightarrow> string \<Rightarrow> sgdb_client \<Rightarrow> world \<Rightarrow> (exn + json list) \<times> sgdb_client \<times> world" where
  "get_grids_by_game_id e game_id c w =
     get_grids e (''sgdb_'' @ game_id) (''grids/game/'' @ game_id) c w"

text \<open>What \<^verbatim>\<open>SteamGridDBClient.search_game\<close> makes of the answer.\<close>

definition first_game_id :: "env \<Rightarrow> json \<Rightarrow> exn + string option" where
  "first_game_id e data =
     (case has_data data of
        Inl x \<Rightarrow> Inl x
      | Inr False \<Rightarrow> Inr None
      | Inr True \<Rightarrow>
          (case py_item data ''data'' of
             Inl x \<Rightarrow> Inl x
           | Inr games \<Rightarrow>
               if truthy games then
                 (case py_first games of
                    Inl x \<Rightarrow> Inl x
                  | Inr g \<Rightarrow>
                      (case py_item g ''id'' of
                         Inl x \<Rightarrow> Inl x
                       | Inr i \<Rightarrow> Inr (Some (py_str e i))))
               else Inr None))"

definition sgdb_search_game ::
  "env \<Rightarrow> string \<Rightarrow> sgdb_client \<Rightarrow> world \<Rightarrow> (exn + string option) \<times> sgdb_client \<times> world" where
  "sgdb_search_game e game_name c w =
     (case make_request e (''search/autocomplete/'' @ url_quote e game_name) c w of
        (data, c', w') \<Rightarrow> (first_game_id e data, c', w'))"

subsection \<open>RAWGClient\<close>

record rawg_client =
  rawg_api_key :: "string option"
  rawg_session_cache :: "(string \<times> json) list"

text \<open>The \<^verbatim>\<open>try\<close> block of \<^verbatim>\<open>RAWGClient.search_game\<close>: \<open>None\<close> when it raises or falls
  through to the code after it.\<close>

definition rawg_image_url :: "env \<Rightarrow> http_result \<Rightarrow> json option" where
  "rawg_image_url e res =
     (case res of
        Response status body \<Rightarrow>
          if status = 200 then
            (case json_loads e body of
               None \<Rightarrow> None
             | Some data \<Rightarrow>
                 if \<not> truthy data then None
                 else
                   (case py_get data ''results'' of
                      Inl x \<Rightarrow> None
                    | Inr rs \<Rightarrow>
                        if \<not> truthy rs then None
                        else
                          (case py_item data ''results'' of
                             Inl x \<Rightarrow> None
                           | Inr results \<Rightarrow>
                               (case py_first results of
                                  Inl x \<Rightarrow> None
                                | Inr game \<Rightarrow>
                                    (case py_get game ''background_image'' of
                                       Inl x \<Rightarrow> None
                                     | Inr image_url \<Rightarrow> Some image_url)))))
          else None
      | _ \<Rightarrow> None)"

definition rawg_search_game ::
  "env \<Rightarrow> string \<Rightarrow> rawg_client \<Rightarrow> world \<Rightarrow> json \<times> rawg_client \<times> world" where
  "rawg_search_game e game_name c w =
     (case rawg_api_key c of
        None \<Rightarrow> (JNull, c, w)
      | Some key \<Rightarrow>
          if key = [] then (JNull, c, w)
          else
            (let cache_key = ''rawg_'' @ map py_lower game_name
             in case map_of (rawg_session_cache c) cache_key of
                  Some cached \<Rightarrow> (cached, c, w)
                | None \<Rightarrow>
                    (let url = ''https://api.rawg.io/api/games?''
                          @ url_encode e [(''key'', key), (''search'', game_name),
                                          (''search_precise'', ''true''), (''page_size'', ''1'')]
                     in case rawg_image_url e (urlopen e (length (io_log w)) url) of
                          Some image_url \<Rightarrow>
                            (image_url,
                             c\<lparr>rawg_session_cache := (cache_key, image_url) # rawg_session_cache c\<rparr>,
                             attempt (HttpGet url) w)
                        | None \<Rightarrow>
                            (JNull,
                             c\<lparr>rawg_session_cache := (cache_key, JNull) # rawg_session_cache c\<rparr>,
                             attempt (HttpGet url) w))))"

subsection \<open>CoverAPIManager\<close>

record manager =
  mgr_cache_dir :: string
  sgdb :: "sgdb_client option"
  rawg :: "rawg_client option"
  search_cache :: "(string \<times> string option) list"

text \<open>\<^verbatim>\<open>CoverAPIManager.__init__\<close>: a client exists only for a non-empty key.\<close>

definition new_manager :: "string \<Rightarrow> string option \<Rightarrow> string option \<Rightarrow> manager" where
  "new_manager dir sgdb_key rawg_key = \<lparr>
     mgr_cache_dir = dir,
     sgdb = (if truthy_str sgdb_key
             then Some \<lparr> sgdb_api_key = sgdb_key, sgdb_session_cache = [] \<rparr> else None),
     rawg = (if truthy_str rawg_key
             then Some \<lparr> rawg_api_key = rawg_key, rawg_session_cache = [] \<rparr> else None),
     search_cache = [] \<rparr>"

record request =
  game_title :: string
  app_id :: "string option"
  exe_path :: "string option"

text \<open>The string of an optional argument that has passed its truth test.\<close>

definition str_arg :: "string option \<Rightarrow> string" where
  "str_arg s = (case s of None \<Rightarrow> [] | Some t \<Rightarrow> t)"

text \<open>
  \<^verbatim>\<open>hashlib.md5(s.lower().encode()).hexdigest()[:12] + ".jpg"\<close> under the cache directory,
  as \<^verbatim>\<open>IconExtractor._get_cache_path\<close> and \<^verbatim>\<open>get_cover\<close> both compute it.
\<close>

definition get_cache_path :: "env \<Rightarrow> string \<Rightarrow> string \<Rightarrow> string" where
  "get_cache_path e dir identifier =
     path_join e dir (take 12 (md5_hexdigest e (map py_lower identifier)) @ ''.jpg'')"

definition key_id :: "env \<Rightarrow> request \<Rightarrow> string" where
  "key_id e rq =
     (if truthy_str (app_id rq) then str_arg (app_id rq)
      else md5_hexdigest e (clean_name (game_title rq)))"

definition cover_cache_path :: "env \<Rightarrow> manager \<Rightarrow> request \<Rightarrow> string" where
  "cover_cache_path e m rq = get_cache_path e (mgr_cache_dir m) (key_id e rq)"

text \<open>
  \<^verbatim>\<open>get_cover\<close> is a sequence of tiers, each returning on success. It is written here as
  one definition per tier, each ending in the rest of the method. Beside the result, the
  model returns the tiers entered, in order: these are the \<^verbatim>\<open>logger.info("[Tier n] ...")\<close>
  lines of the method. An exception that leaves the method is \<open>Inl\<close>.
\<close>

datatype tier = Tier2 | Tier3 | Tier4 | Tier5 | Tier6 | Tier7 | Tier8

type_synonym outcome = "(exn + string option \<times> string) \<times> tier list \<times> manager \<times> world"

definition tier8_on ::
  "env \<Rightarrow> request \<Rightarrow> string \<Rightarrow> tier list \<Rightarrow> manager \<Rightarrow> world \<Rightarrow> outcome" where
  "tier8_on e rq cache_path seen m w =
     (if truthy_str (exe_path rq) then
        (case extract_exe_icon e (str_arg (exe_path rq)) cache_path w of
           (True, w') \<Rightarrow> (Inr (Some cache_path, ''EXE Icon''), seen @ [Tier8], m, w')
         | (False, w') \<Rightarrow> (Inr (None, ''None''), seen @ [Tier8], m, w'))
      else (Inr (None, ''None''), seen, m, w))"

definition tier7_on ::
  "env \<Rightarrow> request \<Rightarrow> string \<Rightarrow> tier list \<Rightarrow> manager \<Rightarrow> world \<Rightarrow> outcome" where
  "tier7_on e rq cache_path seen m w =
     (case search_duckduckgo e (game_title rq) cache_path w of
        (True, w') \<Rightarrow> (Inr (Some cache_path, ''DuckDuckGo''), seen @ [Tier7], m, w')
      | (False, w') \<Rightarrow> tier8_on e rq cache_path (seen @ [Tier7]) m w')"

definition tier6_on ::
  "env \<Rightarrow> request \<Rightarrow> string \<Rightarrow> string \<Rightarrow> tier list \<Rightarrow> manager \<Rightarrow> world \<Rightarrow> outcome" where
  "tier6_on e rq clean cache_path seen m w =
     (case sgdb m of
        None \<Rightarrow> tier7_on e rq cache_path seen m w
      | Some c \<Rightarrow>
          (case sgdb_search_game e clean c w of
             (Inl x, c', w') \<Rightarrow> (Inl x, seen @ [Tier6], m\<lparr>sgdb := Some c'\<rparr>, w')
           | (Inr game_id, c', w') \<Rightarrow>
               if truthy_str game_id then
                 (case get_grids_by_game_id e (str_arg game_id) c' w' of
                    (Inl x, c'', w'') \<Rightarrow> (Inl x, seen @ [Tier6], m\<lparr>sgdb := Some c''\<rparr>, w'')
                  | (Inr urls, c'', w'') \<Rightarrow>
                      (case first_download e urls cache_path w'' of
                         (True, w3) \<Rightarrow>
                           (Inr (Some cache_path, ''SteamGridDB''), seen @ [Tier6],
                            m\<lparr>sgdb := Some c''\<rparr>, w3)
                       | (False, w3) \<Rightarrow>
                           tier7_on e rq cache_path (seen @ [Tier6]) (m\<lparr>sgdb := Some c''\<rparr>) w3))
               else tier7_on e rq cache_path (seen @ [Tier6]) (m\<lparr>sgdb := Some c'\<rparr>) w'))"

definition tier5_on ::
  "env \<Rightarrow> request \<Rightarrow> string \<Rightarrow> string \<Rightarrow> tier list \<Rightarrow> manager \<Rightarrow> world \<Rightarrow> outcome" where
  "tier5_on e rq clean cache_path seen m w =
     (case search_steam_id_by_name e (game_title rq) (search_cache m) w of
        (found_id, cache', w') \<Rightarrow>
          if truthy_str found_id then
            (case download_steam_cover e (str_arg found_id) cache_path w' of
               (True, w'') \<Rightarrow>
                 (Inr (Some cache_path, ''Steam Store''), seen @ [Tier5],
                  m\<lparr>search_cache := cache'\<rparr>, w'')
             | (False, w'') \<Rightarrow>
                 tier6_on e rq clean cache_path (seen @ [Tier5]) (m\<lparr>search_cache := cache'\<rparr>) w'')
          else tier6_on e rq clean cache_path (seen @ [Tier5]) (m\<lparr>search_cache := cache'\<rparr>) w')"

definition tier4_on ::
  "env \<Rightarrow> request \<Rightarrow> string \<Rightarrow> string \<Rightarrow> tier list \<Rightarrow> manager \<Rightarrow> world \<Rightarrow> outcome" where
  "tier4_on e rq clean cache_path seen m w =
     (case rawg m of
        None \<Rightarrow> tier5_on e rq clean cache_path seen m w
      | Some c \<Rightarrow>
          (case rawg_search_game e clean c w of
             (image_url, c', w') \<Rightarrow>
               if truthy image_url then
                 (case download_image e image_url cache_path w' of
                    (True, w'') \<Rightarrow>
                      (Inr (Some cache_path, ''RAWG.io''), seen @ [Tier4],
                       m\<lparr>rawg := Some c'\<rparr>, w'')
                  | (False, w'') \<Rightarrow>
                      tier5_on e rq clean cache_path (seen @ [Tier4]) (m\<lparr>rawg := Some c'\<rparr>) w'')
               else tier5_on e rq clean cache_path (seen @ [Tier4]) (m\<lparr>rawg := Some c'\<rparr>) w'))"

definition tier3_on ::
  "env \<Rightarrow> request \<Rightarrow> string \<Rightarrow> string \<Rightarrow> tier list \<Rightarrow> manager \<Rightarrow> world \<Rightarrow> outcome" where
  "tier3_on e rq clean cache_path seen m w =
     (if truthy_str (app_id rq) then
        (case download_steam_cover e (str_arg (app_id rq)) cache_path w of
           (True, w') \<Rightarrow> (Inr (Some cache_path, ''Steam CDN''), seen @ [Tier3], m, w')
         | (False, w') \<Rightarrow> tier4_on e rq clean cache_path (seen @ [Tier3]) m w')
      else tier4_on e rq clean cache_path seen m w)"

definition tier2_on ::
  "env \<Rightarrow> request \<Rightarrow> string \<Rightarrow> string \<Rightarrow> tier list \<Rightarrow> manager \<Rightarrow> world \<Rightarrow> outcome" where
  "tier2_on e rq clean cache_path seen m w =
     (if truthy_str (app_id rq) then
        (case sgdb m of
           None \<Rightarrow> tier3_on e rq clean cache_path seen m w
         | Some c \<Rightarrow>
             (case get_grids_by_steam_id e (str_arg (app_id rq)) c w of
                (Inl x, c', w') \<Rightarrow> (Inl x, seen @ [Tier2], m\<lparr>sgdb := Some c'\<rparr>, w')
              | (Inr urls, c', w') \<Rightarrow>
                  (case first_download e urls cache_path w' of
                     (True, w'') \<Rightarrow>
                       (Inr (Some cache_path, ''SteamGridDB''), seen @ [Tier2],
                        m\<lparr>sgdb := Some c'\<rparr>, w'')
                   | (False, w'') \<Rightarrow>
                       tier3_on e rq clean cache_path (seen @ [Tier2]) (m\<lparr>sgdb := Some c'\<rparr>) w'')))
      else tier3_on e rq clean cache_path seen m w)"

definition get_cover :: "env \<Rightarrow> request \<Rightarrow> manager \<Rightarrow> world \<Rightarrow> outcome" where
  "get_cover e rq m w =
     tier2_on e rq (clean_name (game_title rq)) (cover_cache_path e m rq) [] m w"

text \<open>Vocabulary for stating the order of the tiers.\<close>

definition all_tiers :: "tier list" where
  "all_tiers = [Tier2, Tier3, Tier4, Tier5, Tier6, Tier7, Tier8]"

fun rank :: "tier \<Rightarrow> nat" where
  "rank Tier2 = 1" | "rank Tier3 = 2" | "rank Tier4 = 3" | "rank Tier5 = 4"
| "rank Tier6 = 5" | "rank Tier7 = 6" | "rank Tier8 = 7"

fun source_tag :: "tier \<Rightarrow> string" where
  "source_tag Tier2 = ''SteamGridDB''"
| "source_tag Tier3 = ''Steam CDN''"
| "source_tag Tier4 = ''RAWG.io''"
| "source_tag Tier5 = ''Steam Store''"
| "source_tag Tier6 = ''SteamGridDB''"
| "source_tag Tier7 = ''DuckDuckGo''"
| "source_tag Tier8 = ''EXE Icon''"

text \<open>The precondition of a tier: a stable identifier, a configured client, an executable
  path.\<close>

fun enabled :: "request \<Rightarrow> manager \<Rightarrow> tier \<Rightarrow> bool" where
  "enabled rq m Tier2 = (truthy_str (app_id rq) \<and> sgdb m \<noteq> None)"
| "enabled rq m Tier3 = truthy_str (app_id rq)"
| "enabled rq m Tier4 = (rawg m \<noteq> None)"
| "enabled rq m Tier5 = True"
| "enabled rq m Tier6 = (sgdb m \<noteq> None)"
| "enabled rq m Tier7 = True"
| "enabled rq m Tier8 = truthy_str (exe_path rq)"




text \<open>
  Vocabulary for the proofs about the tiers: two managers with the same clients present;
  the enabled tiers at positions \<open>a+1..b\<close>; what a result says about the position \<open>k\<close> of the
  last tier entered; and an outcome that entered exactly the enabled tiers from position
  \<open>a+1\<close> to some \<open>k\<close>.
\<close>

definition same_clients :: "manager \<Rightarrow> manager \<Rightarrow> bool" where
  "same_clients m m' = ((sgdb m' = None \<longleftrightarrow> sgdb m = None) \<and> (rawg m' = None \<longleftrightarrow> rawg m = None))"

definition seg :: "request \<Rightarrow> manager \<Rightarrow> nat \<Rightarrow> nat \<Rightarrow> tier list" where
  "seg rq m a b = filter (enabled rq m) (drop a (take b all_tiers))"

definition verdict ::
  "request \<Rightarrow> manager \<Rightarrow> string \<Rightarrow> nat \<Rightarrow> nat \<Rightarrow> (exn + string option \<times> string) \<Rightarrow> bool" where
  "verdict rq m cp a k r =
     ((\<forall>x. r = Inl x \<longrightarrow> a < k \<and> enabled rq m (all_tiers ! (k - 1)))
      \<and> (\<forall>s. r = Inr (None, s) \<longrightarrow> k = 7 \<and> s = ''None'')
      \<and> (\<forall>p s. r = Inr (Some p, s) \<longrightarrow>
            a < k \<and> enabled rq m (all_tiers ! (k - 1)) \<and> p = cp
            \<and> s = source_tag (all_tiers ! (k - 1))))"

definition stops :: "request \<Rightarrow> manager \<Rightarrow> string \<Rightarrow> nat \<Rightarrow> tier list \<Rightarrow> outcome \<Rightarrow> bool" where
  "stops rq m cp a seen out =
     (case out of (r, tr, m', w') \<Rightarrow>
        same_clients m m' \<and>
        (\<exists>k. a \<le> k \<and> k \<le> 7 \<and> tr = seen @ seg rq m a k \<and> verdict rq m cp a k r))"

section \<open>Sample inputs\<close>

subsection \<open>Sample disks\<close>

definition sample_sizes :: "(string \<times> nat) list" where
  "sample_sizes =
     [(''cache/empty.jpg'', 0), (''cache/small.jpg'', 1000),
      (''cache/edge.jpg'', 2048), (''cache/big.jpg'', 5000)]"

definition sample_library :: json where
  "sample_library = JDict [(''games'',
     JList [JDict [(''uid'', JStr ''u1''), (''icon_path'', JStr ''cache/a1.jpg'')],
            JDict [(''uid'', JStr ''u2''), (''icon_path'', JNull)],
            JDict [(''uid'', JStr ''u3''), (''icon_path'', JStr ''cache/a2.jpg'')],
            JDict [(''uid'', JStr ''u4''), (''icon_path'', JStr ''cache/a3.jpg'')],
            JDict [(''uid'', JStr ''u5''), (''icon_path'', JStr ''cache/a4.png'')],
            JDict [(''uid'', JStr ''u6''), (''icon_path'', JStr ''cache/a5.jpg'')],
            JDict [(''uid'', JStr ''u7''), (''icon_path'', JStr ''cache/a6.jpg'')],
            JDict [(''uid'', JStr ''u8''), (''icon_path'', JStr ''cache/a7.png'')]])]"

text \<open>A stand-in for \<^verbatim>\<open>Path(p).name\<close> on the sample paths: the text after the last
  slash.\<close>

definition last_component :: "string \<Rightarrow> string" where
  "last_component p = rev (takeWhile (\<lambda>c. c \<noteq> CHR ''/'') (rev p))"

definition sample_env :: env where
  "sample_env = \<lparr>
     urlopen = (\<lambda>n url. URLError),
     json_loads = map_of [(''LIBRARY'', sample_library)],
     md5_hexdigest = (\<lambda>s. s),
     url_quote = (\<lambda>s. s),
     url_encode = (\<lambda>ps. concat (map (\<lambda>kv. fst kv @ ''='' @ snd kv @ ''&'') ps)),
     py_str = (\<lambda>j. case j of JStr s \<Rightarrow> s | _ \<Rightarrow> ''?''),
     path_name = last_component,
     path_join = (\<lambda>d n. d @ ''/'' @ n),
     has_ddg = False,
     has_icoextract = False,
     ddgs_images = (\<lambda>n q. None),
     exe_icons = (\<lambda>n p. None),
     can_write = (\<lambda>p. True),
     windows_flavour = True \<rparr>"

definition entry :: "string \<Rightarrow> cache_entry" where
  "entry n = \<lparr> entry_name = n, entry_locked = False \<rparr>"

definition sample_disk :: disk where
  "sample_disk = \<lparr>
     path_exists = (\<lambda>p. if 255 < length p then None else Some (p \<in> set (map fst sample_sizes))),
     st_size = map_of sample_sizes,
     library_file = LibText ''LIBRARY'',
     cache_dir = Some [entry ''a1.jpg'', entry ''x1.jpg'', entry ''a2.jpg'', entry ''a3.jpg'',
       entry ''a4.png'', entry ''x2.png'', entry ''a5.jpg'', entry ''a6.jpg'',
       entry ''x3.jpg'', entry ''a7.png''] \<rparr>"


subsection \<open>Sample worlds for the resolver\<close>

text \<open>
  In the sample environments \<^verbatim>\<open>md5\<close> is replaced by the identity and a path is joined
  with a slash; no property below depends on either.
\<close>

definition big_body :: string where
  "big_body = replicate 3000 CHR ''x''"

definition doom :: request where
  "doom = \<lparr> game_title = ''Doom Eternal [CODEX]'', app_id = Some ''782330'', exe_path = None \<rparr>"

definition empty_world :: world where
  "empty_world = \<lparr> io_log = [], files = [] \<rparr>"

text \<open>The CDN serves the library cover of application 782330; nothing else answers.\<close>

definition cdn_env :: env where
  "cdn_env = sample_env \<lparr> urlopen := (\<lambda>n url.
     if url = ''https://cdn.cloudflare.steamstatic.com/steam/apps/782330/library_600x900.jpg''
     then Response 200 big_body else URLError) \<rparr>"




text \<open>SteamGridDB answers the grid query with a grid that has no \<^verbatim>\<open>url\<close>.\<close>

definition grid_without_url :: json where
  "grid_without_url = JDict [(''success'', JBool True),
     (''data'', JList [JDict [(''id'', JInt 1), (''height'', JInt 900), (''width'', JInt 600)]])]"

definition bad_grid_env :: env where
  "bad_grid_env = sample_env \<lparr>
     urlopen := (\<lambda>n url.
       if url = ''https://www.steamgriddb.com/api/v2/grids/steam/782330''
       then Response 200 ''GRIDS'' else URLError),
     json_loads := map_of [(''GRIDS'', grid_without_url)] \<rparr>"

text \<open>Every request is answered with HTTP 401.\<close>

definition unauthorized_env :: env where
  "unauthorized_env = sample_env \<lparr> urlopen := (\<lambda>n url. HTTPError 401) \<rparr>"

definition rawg0 :: rawg_client where
  "rawg0 = \<lparr> rawg_api_key = Some ''badkey'', rawg_session_cache = [] \<rparr>"

definition sgdb0 :: sgdb_client where
  "sgdb0 = \<lparr> sgdb_api_key = Some ''badkey'', sgdb_session_cache = [] \<rparr>"

section \<open>Evaluation\<close>

subsection \<open>Character classes by bits\<close>

text \<open>
  The character classes are defined by code point. For evaluation it is quicker to decide
  them on the eight bits of a character; the equations below are proved from the
  definitions, case by case.
\<close>

lemma is_word_bits [code]:
  "is_word (Char b0 b1 b2 b3 b4 b5 b6 b7) =
     (if b7 then (if b6 then (if b5 then (\<not> b4 \<or> (b3 \<or> (\<not> b2 \<or>
     (\<not> b1 \<or> \<not> b0)))) else (\<not> b4 \<or> (b3 \<or> (\<not> b2 \<or>
     (\<not> b1 \<or> \<not> b0))))) else (b5 \<and> (if b4 then (if b3 then (if b2 then
     (\<not> b1 \<or> \<not> b0) else (if b1 then \<not> b0 else b0)) else (if b2 then
     (\<not> b1 \<and> b0) else b1)) else (b3 \<and> (\<not> b2 \<and> (b1 \<and> \<not>
     b0)))))) else (if b6 then (if b5 then (if b4 then (\<not> b3 \<or> (\<not> b2
     \<and> (\<not> b1 \<or> \<not> b0))) else (b3 \<or> (b2 \<or> (b1 \<or> b0)))) else
     (if b4 then (\<not> b3 \<or> (if b2 then (b1 \<and> b0) else (\<not> b1 \<or>
     \<not> b0))) else (b3 \<or> (b2 \<or> (b1 \<or> b0))))) else (b5 \<and> (b4 \<and>
     (\<not> b3 \<or> (\<not> b2 \<and> \<not> b1))))))"
  by (cases b0; cases b1; cases b2; cases b3; cases b4; cases b5; cases b6; cases b7;
      simp add: is_word_def)

lemma is_space_bits [code]:
  "is_space (Char b0 b1 b2 b3 b4 b5 b6 b7) =
     (if b7 then (\<not> b6 \<and> (if b5 then (\<not> b4 \<and> (\<not> b3 \<and>
     (\<not> b2 \<and> (\<not> b1 \<and> \<not> b0)))) else (\<not> b4 \<and> (\<not> b3
     \<and> (b2 \<and> (\<not> b1 \<and> b0)))))) else (\<not> b6 \<and> (if b5 then
     (\<not> b4 \<and> (\<not> b3 \<and> (\<not> b2 \<and> (\<not> b1 \<and> \<not>
     b0)))) else (if b4 then (b3 \<and> b2) else (b3 \<and> (if b2 then \<not> b1 else
     (b1 \<or> b0)))))))"
  by (cases b0; cases b1; cases b2; cases b3; cases b4; cases b5; cases b6; cases b7;
      simp add: is_space_def)

lemma is_digit_bits [code]:
  "is_digit (Char b0 b1 b2 b3 b4 b5 b6 b7) =
     (\<not> b7 \<and> (\<not> b6 \<and> (b5 \<and> (b4 \<and> (\<not> b3 \<or> (\<not>
     b2 \<and> \<not> b1))))))"
  by (cases b0; cases b1; cases b2; cases b3; cases b4; cases b5; cases b6; cases b7;
      simp add: is_digit_def)

lemma py_lower_bits [code]:
  "py_lower (Char b0 b1 b2 b3 b4 b5 b6 b7) =
     (if
     (if b7 then (b6 \<and> (\<not> b5 \<and> (\<not> b4 \<or> (if b3 then (\<not> b2
     \<or> (\<not> b1 \<or> \<not> b0)) else (\<not> b2 \<or> (\<not> b1 \<or> \<not>
     b0)))))) else (b6 \<and> (\<not> b5 \<and> (if b4 then (\<not> b3 \<or> (\<not> b2
     \<and> (\<not> b1 \<or> \<not> b0))) else (b3 \<or> (b2 \<or> (b1 \<or> b0)))))))
      then Char b0 b1 b2 b3 b4 True b6 b7 else Char b0 b1 b2 b3 b4 b5 b6 b7)"
  by (cases b0; cases b1; cases b2; cases b3; cases b4; cases b5; cases b6; cases b7;
      simp add: py_lower_def char_of_def bit_Suc_0_iff)

section \<open>Properties of CoverValidator\<close>

lemma validate_cache_file_iff:
  "validate_cache_file d p =
     (if p = [] then Inr False
      else (case path_exists d p of
              None \<Rightarrow> Inl OSError
            | Some b \<Rightarrow> Inr (b \<and> (\<exists>n. st_size d p = Some n \<and> 2048 \<le> n))))"
  by (auto simp: validate_cache_file_def split: option.splits bool.splits)

text \<open>
  Claim C8, as the code has it: where \<^verbatim>\<open>Path.exists\<close> answers, \<^verbatim>\<open>validate_cache_file(p)\<close>
  returns true exactly when \<open>p\<close> is non-empty, the path exists and its size is at least 2048
  bytes (the code rejects sizes below 2048, so a file of exactly 2048 bytes is valid). A
  file that \<^verbatim>\<open>Path.exists\<close> reports missing, a 0-byte and a 1000-byte file are rejected, a
  5000-byte file is accepted; nothing but existence and size is looked at.
\<close>

theorem validate_cache_file_spec:
  "(p = [] \<or> path_exists d p \<noteq> None \<longrightarrow>
      validate_cache_file d p =
        Inr (p \<noteq> [] \<and> path_exists d p = Some True
             \<and> (\<exists>n. st_size d p = Some n \<and> 2048 \<le> n)))
   \<and> (path_exists d p = Some False \<longrightarrow> validate_cache_file d p = Inr False)
   \<and> (path_exists d p = Some True \<and> (st_size d p = Some 0 \<or> st_size d p = Some 1000)
        \<longrightarrow> validate_cache_file d p = Inr False)
   \<and> (p \<noteq> [] \<and> path_exists d p = Some True \<and> st_size d p = Some 5000
        \<longrightarrow> validate_cache_file d p = Inr True)"
  by (auto simp: validate_cache_file_iff)

theorem validate_cache_file_spec_witness:
  "path_exists sample_disk ''cache/none.jpg'' = Some False
   \<and> validate_cache_file sample_disk ''cache/none.jpg'' = Inr False
   \<and> path_exists sample_disk ''cache/small.jpg'' = Some True
   \<and> st_size sample_disk ''cache/small.jpg'' = Some 1000
   \<and> validate_cache_file sample_disk ''cache/small.jpg'' = Inr False
   \<and> path_exists sample_disk ''cache/big.jpg'' = Some True
   \<and> st_size sample_disk ''cache/big.jpg'' = Some 5000
   \<and> validate_cache_file sample_disk ''cache/big.jpg'' = Inr True"
  using validate_cache_file_spec [of "''cache/none.jpg''" sample_disk]
    validate_cache_file_spec [of "''cache/small.jpg''" sample_disk]
    validate_cache_file_spec [of "''cache/big.jpg''" sample_disk]
  by (simp add: sample_disk_def sample_sizes_def)

text \<open>
  Claim C8 as stated asks for a size that exceeds 2048 bytes. A file of exactly 2048 bytes
  does not exceed the threshold, and the code accepts it.
\<close>

theorem validate_cache_file_edge_counterexample:
  "path_exists sample_disk ''cache/edge.jpg'' = Some True
   \<and> st_size sample_disk ''cache/edge.jpg'' = Some 2048
   \<and> \<not> (2048 < (2048 :: nat))
   \<and> validate_cache_file sample_disk ''cache/edge.jpg'' = Inr True"
  by (simp add: validate_cache_file_def sample_disk_def sample_sizes_def)

text \<open>
  Where \<^verbatim>\<open>Path.exists\<close> raises, the exception leaves \<^verbatim>\<open>validate_cache_file\<close>: the \<^verbatim>\<open>try\<close>
  of the method guards \<^verbatim>\<open>stat\<close> only. A name of 300 characters is such a path on the sample
  disk.
\<close>

lemma validate_cache_file_raises:
  "p \<noteq> [] \<Longrightarrow> path_exists d p = None \<Longrightarrow> validate_cache_file d p = Inl OSError"
  by (simp add: validate_cache_file_def)

lemma validate_cache_file_long_name:
  "validate_cache_file sample_disk (replicate 300 CHR ''x'') = Inl OSError"
  by (simp add: validate_cache_file_def sample_disk_def)



























section \<open>Properties of CoverAPIManager.get_cover\<close>

lemma enabled_same_clients: "same_clients m m' \<Longrightarrow> enabled rq m' t = enabled rq m t"
  by (cases t) (auto simp: same_clients_def)

lemma seg_same_clients: "same_clients m m' \<Longrightarrow> seg rq m' a b = seg rq m a b"
  unfolding seg_def by (rule filter_cong) (auto simp: enabled_same_clients)

lemma same_clients_refl: "same_clients m m"
  by (simp add: same_clients_def)

lemma same_clients_trans: "same_clients m m1 \<Longrightarrow> same_clients m1 m2 \<Longrightarrow> same_clients m m2"
  by (simp add: same_clients_def)

lemma verdict_weaken: "verdict rq m cp (Suc a) k r \<Longrightarrow> verdict rq m cp a k r"
  by (auto simp: verdict_def)

lemma verdict_same_clients:
  "same_clients m m1 \<Longrightarrow> verdict rq m1 cp a k r = verdict rq m cp a k r"
  unfolding verdict_def by (simp only: enabled_same_clients)

lemma verdict_stop:
  "enabled rq m (all_tiers ! a) \<Longrightarrow>
   r = Inr (Some cp, source_tag (all_tiers ! a)) \<or> (\<exists>x. r = Inl x) \<Longrightarrow>
   verdict rq m cp a (Suc a) r"
  unfolding verdict_def by auto

lemma stopsI:
  "same_clients m m' \<Longrightarrow> a \<le> k \<Longrightarrow> k \<le> 7 \<Longrightarrow> tr = seen @ seg rq m a k \<Longrightarrow>
   verdict rq m cp a k r \<Longrightarrow> stops rq m cp a seen (r, tr, m', w')"
  unfolding stops_def by blast

lemma stopsD:
  "stops rq m cp a seen (r, tr, m', w') \<Longrightarrow>
   same_clients m m' \<and> (\<exists>k. a \<le> k \<and> k \<le> 7 \<and> tr = seen @ seg rq m a k \<and> verdict rq m cp a k r)"
  unfolding stops_def by simp

lemma seg_Suc:
  assumes "a < k" "k \<le> 7"
  shows "seg rq m a k =
    (if enabled rq m (all_tiers ! a) then [all_tiers ! a] else []) @ seg rq m (Suc a) k"
proof -
  have len: "a < length (take k all_tiers)" using assms by (simp add: all_tiers_def)
  have "drop a (take k all_tiers) = take k all_tiers ! a # drop (Suc a) (take k all_tiers)"
    by (rule Cons_nth_drop_Suc [symmetric]) (rule len)
  moreover have "take k all_tiers ! a = all_tiers ! a" using assms by simp
  ultimately have "drop a (take k all_tiers) = all_tiers ! a # drop (Suc a) (take k all_tiers)"
    by simp
  then show ?thesis unfolding seg_def by simp
qed

lemma seg_empty: "seg rq m a a = []"
  by (simp add: seg_def)

lemma seg_single:
  assumes "a < 7"
  shows "seg rq m a (Suc a) = (if enabled rq m (all_tiers ! a) then [all_tiers ! a] else [])"
  using seg_Suc [of a "Suc a" rq m] assms by (simp add: seg_empty)

lemma stops_step:
  assumes a: "a < 7" and t: "t = all_tiers ! a"
    and cont: "\<And>seen m w. stops rq m cp (Suc a) seen (cont seen m w)"
    and cases: "(\<not> enabled rq m t \<and> out = cont seen m w)
      \<or> (enabled rq m t \<and> (\<exists>r m1 w1. out = (r, seen @ [t], m1, w1) \<and> same_clients m m1
            \<and> (r = Inr (Some cp, source_tag t) \<or> (\<exists>x. r = Inl x))))
      \<or> (enabled rq m t \<and> (\<exists>m1 w1. out = cont (seen @ [t]) m1 w1 \<and> same_clients m m1))"
  shows "stops rq m cp a seen out"
proof -
  consider (skip) "\<not> enabled rq m t" "out = cont seen m w"
    | (stop) r m1 w1 where "enabled rq m t" "out = (r, seen @ [t], m1, w1)" "same_clients m m1"
        "r = Inr (Some cp, source_tag t) \<or> (\<exists>x. r = Inl x)"
    | (pass) m1 w1 where "enabled rq m t" "out = cont (seen @ [t]) m1 w1" "same_clients m m1"
    using cases by blast
  then show ?thesis
  proof cases
    case skip
    obtain r tr m' w' where out: "out = (r, tr, m', w')" by (cases out) auto
    have "stops rq m cp (Suc a) seen (r, tr, m', w')"
      using cont [of m seen w] skip(2) out by simp
    from stopsD [OF this] obtain k where
      k: "same_clients m m'" "Suc a \<le> k" "k \<le> 7" "tr = seen @ seg rq m (Suc a) k"
        "verdict rq m cp (Suc a) k r"
      by blast
    have "seg rq m a k = seg rq m (Suc a) k"
      using seg_Suc [of a k rq m] k(2,3) skip(1) t by simp
    then have "tr = seen @ seg rq m a k" using k(4) by simp
    moreover have "a \<le> k" using k(2) by simp
    ultimately show ?thesis unfolding out
      using k(1,3) verdict_weaken [OF k(5)] by (intro stopsI)
  next
    case stop
    have s: "seg rq m a (Suc a) = [t]" using seg_single [OF a, of rq m] stop(1) t by simp
    have v: "verdict rq m cp a (Suc a) r"
      using verdict_stop [of rq m a r cp] stop(1,4) t by simp
    show ?thesis unfolding stop(2)
      by (rule stopsI [where k = "Suc a"]) (use stop(3) a s v in simp_all)
  next
    case pass
    obtain r tr m' w' where out: "out = (r, tr, m', w')" by (cases out) auto
    have "stops rq m1 cp (Suc a) (seen @ [t]) (r, tr, m', w')"
      using cont [of m1 "seen @ [t]" w1] pass(2) out by simp
    from stopsD [OF this] obtain k where
      k: "same_clients m1 m'" "Suc a \<le> k" "k \<le> 7" "tr = (seen @ [t]) @ seg rq m1 (Suc a) k"
        "verdict rq m1 cp (Suc a) k r"
      by blast
    have "seg rq m a k = t # seg rq m (Suc a) k"
      using seg_Suc [of a k rq m] k(2,3) pass(1) t by simp
    moreover have "seg rq m1 (Suc a) k = seg rq m (Suc a) k"
      using pass(3) by (rule seg_same_clients)
    ultimately have tr: "tr = seen @ seg rq m a k" using k(4) by simp
    have sc: "same_clients m m'" using pass(3) k(1) by (rule same_clients_trans)
    have "verdict rq m cp (Suc a) k r"
      using k(5) verdict_same_clients [OF pass(3)] by simp
    then have v: "verdict rq m cp a k r" by (rule verdict_weaken)
    have "a \<le> k" using k(2) by simp
    then show ?thesis unfolding out using sc k(3) tr v by (intro stopsI)
  qed
qed


lemma stops_end: "stops rq m cp 7 seen (Inr (None, ''None''), seen, m, w)"
  by (rule stopsI [where k = 7]) (simp_all add: same_clients_refl seg_empty verdict_def)

lemma tier8_stops: "stops rq m cp 6 seen (tier8_on e rq cp seen m w)"
proof (rule stops_step [where t = Tier8 and w = w
      and cont = "\<lambda>seen m w. (Inr (None, ''None''), seen, m, w)"])
  show "(\<not> enabled rq m Tier8 \<and> tier8_on e rq cp seen m w = (Inr (None, ''None''), seen, m, w))
      \<or> (enabled rq m Tier8 \<and> (\<exists>r m1 w1. tier8_on e rq cp seen m w = (r, seen @ [Tier8], m1, w1)
            \<and> same_clients m m1 \<and> (r = Inr (Some cp, source_tag Tier8) \<or> (\<exists>x. r = Inl x))))
      \<or> (enabled rq m Tier8 \<and> (\<exists>m1 w1. tier8_on e rq cp seen m w
            = (Inr (None, ''None''), seen @ [Tier8], m1, w1) \<and> same_clients m m1))"
    unfolding tier8_on_def
    by (auto simp: same_clients_refl split: prod.splits bool.splits)
qed (simp_all add: all_tiers_def stops_end)

lemma tier7_stops: "stops rq m cp 5 seen (tier7_on e rq cp seen m w)"
proof (rule stops_step [where t = Tier7 and w = w and cont = "tier8_on e rq cp"])
  show "(\<not> enabled rq m Tier7 \<and> tier7_on e rq cp seen m w = tier8_on e rq cp seen m w)
      \<or> (enabled rq m Tier7 \<and> (\<exists>r m1 w1. tier7_on e rq cp seen m w = (r, seen @ [Tier7], m1, w1)
            \<and> same_clients m m1 \<and> (r = Inr (Some cp, source_tag Tier7) \<or> (\<exists>x. r = Inl x))))
      \<or> (enabled rq m Tier7 \<and> (\<exists>m1 w1. tier7_on e rq cp seen m w
            = tier8_on e rq cp (seen @ [Tier7]) m1 w1 \<and> same_clients m m1))"
    unfolding tier7_on_def
    by (auto simp: same_clients_refl split: prod.splits bool.splits)
qed (simp_all add: all_tiers_def tier8_stops)

lemma same_clients_sgdb: "sgdb m = Some c \<Longrightarrow> same_clients m (m\<lparr>sgdb := Some c'\<rparr>)"
  by (simp add: same_clients_def)

lemma same_clients_rawg: "rawg m = Some c \<Longrightarrow> same_clients m (m\<lparr>rawg := Some c'\<rparr>)"
  by (simp add: same_clients_def)

lemma same_clients_search: "same_clients m (m\<lparr>search_cache := sc\<rparr>)"
  by (simp add: same_clients_def)

lemma tier6_stops: "stops rq m cp 4 seen (tier6_on e rq cl cp seen m w)"
proof (rule stops_step [where t = Tier6 and w = w and cont = "tier7_on e rq cp"])
  show "(\<not> enabled rq m Tier6 \<and> tier6_on e rq cl cp seen m w = tier7_on e rq cp seen m w)
      \<or> (enabled rq m Tier6 \<and> (\<exists>r m1 w1. tier6_on e rq cl cp seen m w = (r, seen @ [Tier6], m1, w1)
            \<and> same_clients m m1 \<and> (r = Inr (Some cp, source_tag Tier6) \<or> (\<exists>x. r = Inl x))))
      \<or> (enabled rq m Tier6 \<and> (\<exists>m1 w1. tier6_on e rq cl cp seen m w
            = tier7_on e rq cp (seen @ [Tier6]) m1 w1 \<and> same_clients m m1))"
  proof (cases "sgdb m")
    case None
    then show ?thesis by (simp add: tier6_on_def)
  next
    case (Some c)
    then show ?thesis
      unfolding tier6_on_def
      by (auto simp: same_clients_sgdb split: prod.splits bool.splits sum.splits)
  qed
qed (simp_all add: all_tiers_def tier7_stops)

lemma tier5_stops: "stops rq m cp 3 seen (tier5_on e rq cl cp seen m w)"
proof (rule stops_step [where t = Tier5 and w = w and cont = "tier6_on e rq cl cp"])
  show "(\<not> enabled rq m Tier5 \<and> tier5_on e rq cl cp seen m w = tier6_on e rq cl cp seen m w)
      \<or> (enabled rq m Tier5 \<and> (\<exists>r m1 w1. tier5_on e rq cl cp seen m w = (r, seen @ [Tier5], m1, w1)
            \<and> same_clients m m1 \<and> (r = Inr (Some cp, source_tag Tier5) \<or> (\<exists>x. r = Inl x))))
      \<or> (enabled rq m Tier5 \<and> (\<exists>m1 w1. tier5_on e rq cl cp seen m w
            = tier6_on e rq cl cp (seen @ [Tier5]) m1 w1 \<and> same_clients m m1))"
    unfolding tier5_on_def
    by (auto simp: same_clients_search split: prod.splits bool.splits)
qed (simp_all add: all_tiers_def tier6_stops)

lemma tier4_stops: "stops rq m cp 2 seen (tier4_on e rq cl cp seen m w)"
proof (rule stops_step [where t = Tier4 and w = w and cont = "tier5_on e rq cl cp"])
  show "(\<not> enabled rq m Tier4 \<and> tier4_on e rq cl cp seen m w = tier5_on e rq cl cp seen m w)
      \<or> (enabled rq m Tier4 \<and> (\<exists>r m1 w1. tier4_on e rq cl cp seen m w = (r, seen @ [Tier4], m1, w1)
            \<and> same_clients m m1 \<and> (r = Inr (Some cp, source_tag Tier4) \<or> (\<exists>x. r = Inl x))))
      \<or> (enabled rq m Tier4 \<and> (\<exists>m1 w1. tier4_on e rq cl cp seen m w
            = tier5_on e rq cl cp (seen @ [Tier4]) m1 w1 \<and> same_clients m m1))"
  proof (cases "rawg m")
    case None
    then show ?thesis by (simp add: tier4_on_def)
  next
    case (Some c)
    then show ?thesis
      unfolding tier4_on_def
      by (auto simp: same_clients_rawg split: prod.splits bool.splits)
  qed
qed (simp_all add: all_tiers_def tier5_stops)

lemma tier3_stops: "stops rq m cp 1 seen (tier3_on e rq cl cp seen m w)"
proof (rule stops_step [where t = Tier3 and w = w and cont = "tier4_on e rq cl cp"])
  show "(\<not> enabled rq m Tier3 \<and> tier3_on e rq cl cp seen m w = tier4_on e rq cl cp seen m w)
      \<or> (enabled rq m Tier3 \<and> (\<exists>r m1 w1. tier3_on e rq cl cp seen m w = (r, seen @ [Tier3], m1, w1)
            \<and> same_clients m m1 \<and> (r = Inr (Some cp, source_tag Tier3) \<or> (\<exists>x. r = Inl x))))
      \<or> (enabled rq m Tier3 \<and> (\<exists>m1 w1. tier3_on e rq cl cp seen m w
            = tier4_on e rq cl cp (seen @ [Tier3]) m1 w1 \<and> same_clients m m1))"
    unfolding tier3_on_def
    by (auto simp: same_clients_refl split: prod.splits bool.splits)
qed (simp_all add: all_tiers_def tier4_stops [unfolded numeral_2_eq_2])

lemma tier2_stops: "stops rq m cp 0 seen (tier2_on e rq cl cp seen m w)"
proof (rule stops_step [where t = Tier2 and w = w and cont = "tier3_on e rq cl cp"])
  show "(\<not> enabled rq m Tier2 \<and> tier2_on e rq cl cp seen m w = tier3_on e rq cl cp seen m w)
      \<or> (enabled rq m Tier2 \<and> (\<exists>r m1 w1. tier2_on e rq cl cp seen m w = (r, seen @ [Tier2], m1, w1)
            \<and> same_clients m m1 \<and> (r = Inr (Some cp, source_tag Tier2) \<or> (\<exists>x. r = Inl x))))
      \<or> (enabled rq m Tier2 \<and> (\<exists>m1 w1. tier2_on e rq cl cp seen m w
            = tier3_on e rq cl cp (seen @ [Tier2]) m1 w1 \<and> same_clients m m1))"
  proof (cases "sgdb m")
    case None
    then show ?thesis by (simp add: tier2_on_def)
  next
    case (Some c)
    then show ?thesis
      unfolding tier2_on_def
      by (auto simp: same_clients_sgdb split: prod.splits bool.splits sum.splits)
  qed
qed (simp_all add: all_tiers_def tier3_stops [unfolded One_nat_def])

lemma get_cover_stops: "stops rq m (cover_cache_path e m rq) 0 [] (get_cover e rq m w)"
  unfolding get_cover_def by (rule tier2_stops)


lemma last_seg:
  assumes "0 < k" "k \<le> 7" "enabled rq m (all_tiers ! (k - 1))"
  shows "seg rq m 0 k \<noteq> [] \<and> last (seg rq m 0 k) = all_tiers ! (k - 1)"
proof -
  have "take k all_tiers = take (k - 1) all_tiers @ [all_tiers ! (k - 1)]"
    using assms(1,2) take_Suc_conv_app_nth [of "k - 1" all_tiers] by (simp add: all_tiers_def)
  then show ?thesis using assms(3) by (simp add: seg_def)
qed

lemma rank_nth: "0 < k \<Longrightarrow> k \<le> 7 \<Longrightarrow> rank (all_tiers ! (k - 1)) = k"
proof -
  assume "0 < k" "k \<le> 7"
  then have "k \<in> {1, 2, 3, 4, 5, 6, 7}" by auto
  then show ?thesis by (auto simp: all_tiers_def)
qed

text \<open>
  The tiers entered, read off the log lines: they are exactly the enabled tiers of an
  initial stretch of the list. When a path is returned, the stretch ends at the tier whose
  tag is returned; when no path is returned, every enabled tier was entered.
\<close>

lemma get_cover_trace:
  assumes "get_cover e rq m w = (r, tr, m', w')"
  shows "(\<exists>k\<le>7. tr = filter (enabled rq m) (take k all_tiers))
    \<and> (\<forall>p s. r = Inr (Some p, s) \<longrightarrow>
          tr \<noteq> [] \<and> s = source_tag (last tr)
          \<and> tr = filter (enabled rq m) (take (rank (last tr)) all_tiers))
    \<and> (\<forall>s. r = Inr (None, s) \<longrightarrow> tr = filter (enabled rq m) all_tiers)"
proof -
  have "stops rq m (cover_cache_path e m rq) 0 [] (r, tr, m', w')"
    using get_cover_stops [of rq m e w] assms by simp
  from stopsD [OF this] obtain k where
    k: "k \<le> 7" "tr = seg rq m 0 k" "verdict rq m (cover_cache_path e m rq) 0 k r"
    by auto
  have tr: "tr = filter (enabled rq m) (take k all_tiers)" using k(2) by (simp add: seg_def)
  have some: "tr \<noteq> [] \<and> s = source_tag (last tr)
      \<and> tr = filter (enabled rq m) (take (rank (last tr)) all_tiers)"
    if "r = Inr (Some p, s)" for p s
  proof -
    from k(3) that have v: "0 < k" "enabled rq m (all_tiers ! (k - 1))"
        "s = source_tag (all_tiers ! (k - 1))"
      by (auto simp: verdict_def)
    from last_seg [OF v(1) k(1) v(2)] k(2)
    have l: "tr \<noteq> []" "last tr = all_tiers ! (k - 1)" by simp_all
    then have "rank (last tr) = k" using rank_nth [OF v(1) k(1)] by simp
    then show ?thesis using l v(3) tr by simp
  qed
  have none: "tr = filter (enabled rq m) all_tiers" if "r = Inr (None, s)" for s
  proof -
    from k(3) that have "k = 7" by (auto simp: verdict_def)
    then show ?thesis using tr by (simp add: all_tiers_def)
  qed
  show ?thesis using tr k(1) some none by blast
qed

subsection \<open>The chain of tiers\<close>


























subsection \<open>The source tags\<close>

text \<open>
  Claim C4, as the code has it: the source returned by \<^verbatim>\<open>get_cover\<close> is one of the seven
  strings the method returns, \<^verbatim>\<open>SteamGridDB\<close>, \<^verbatim>\<open>Steam CDN\<close>, \<^verbatim>\<open>RAWG.io\<close>,
  \<^verbatim>\<open>Steam Store\<close>, \<^verbatim>\<open>DuckDuckGo\<close>, \<^verbatim>\<open>EXE Icon\<close>, \<^verbatim>\<open>None\<close>, and it is \<^verbatim>\<open>None\<close>
  exactly when there is no path.
\<close>

theorem get_cover_source_tags:
  assumes "get_cover e rq m w = (Inr (path, src), tr, m', w')"
  shows "src \<in> {''SteamGridDB'', ''Steam CDN'', ''RAWG.io'', ''Steam Store'', ''DuckDuckGo'',
      ''EXE Icon'', ''None''}
    \<and> (path = None \<longleftrightarrow> src = ''None'')"
proof -
  have "stops rq m (cover_cache_path e m rq) 0 [] (Inr (path, src), tr, m', w')"
    using get_cover_stops [of rq m e w] assms by simp
  from stopsD [OF this] obtain k where
    k: "verdict rq m (cover_cache_path e m rq) 0 k (Inr (path, src))"
    by auto
  have tags: "source_tag t \<in> {''SteamGridDB'', ''Steam CDN'', ''RAWG.io'', ''Steam Store'',
      ''DuckDuckGo'', ''EXE Icon''}" for t
    by (cases t) simp_all
  have nn: "source_tag t \<noteq> ''None''" for t
    by (cases t) simp_all
  show ?thesis
  proof (cases path)
    case None
    with k show ?thesis by (simp add: verdict_def)
  next
    case (Some p)
    with k have "src = source_tag (all_tiers ! (k - 1))" by (simp add: verdict_def)
    then show ?thesis using tags [of "all_tiers ! (k - 1)"] nn [of "all_tiers ! (k - 1)"] Some
      by auto
  qed
qed


subsection \<open>Sample runs\<close>

lemma run_cdn:
  "(case get_cover cdn_env doom (new_manager ''cache'' None None) empty_world of
      (r, tr, m', w') \<Rightarrow>
        r = Inr (Some ''cache/782330.jpg'', ''Steam CDN'') \<and> tr = [Tier3]
        \<and> io_log w' = [HttpGet ''https://cdn.cloudflare.steamstatic.com/steam/apps/782330/library_600x900.jpg''])"
  by code_simp



lemma run_bad_grid:
  "(case get_cover bad_grid_env doom (new_manager ''cache'' (Some ''key'') None) empty_world of
      (r, tr, m', w') \<Rightarrow> r = Inl KeyError \<and> tr = [Tier2])"
  by code_simp


lemma outcome_parts: "(out :: outcome) = (fst out, fst (snd out), fst (snd (snd out)), snd (snd (snd out)))"
  by simp


theorem get_cover_source_tags_witness:
  "fst (get_cover cdn_env doom (new_manager ''cache'' None None) empty_world)
     = Inr (Some ''cache/782330.jpg'', ''Steam CDN'')
   \<and> ''Steam CDN'' \<in> {''SteamGridDB'', ''Steam CDN'', ''RAWG.io'', ''Steam Store'', ''DuckDuckGo'',
      ''EXE Icon'', ''None''}
   \<and> ''Steam CDN'' \<noteq> ''None''"
proof -
  let ?out = "get_cover cdn_env doom (new_manager ''cache'' None None) empty_world"
  have r: "fst ?out = Inr (Some ''cache/782330.jpg'', ''Steam CDN'')"
    using run_cdn by (simp split: prod.splits)
  have "?out = (Inr (Some ''cache/782330.jpg'', ''Steam CDN''), fst (snd ?out),
      fst (snd (snd ?out)), snd (snd (snd ?out)))"
    using r outcome_parts [of ?out] by simp
  from get_cover_source_tags [OF this] r show ?thesis by simp
qed

text \<open>
  Claim C4 as stated lists the tags \<^verbatim>\<open>SteamCDN\<close>, \<^verbatim>\<open>RAWG\<close>, \<^verbatim>\<open>SteamStoreSearch\<close> and
  \<^verbatim>\<open>ExeIcon\<close>. A cover fetched from the CDN is returned with the source \<^verbatim>\<open>Steam CDN\<close>,
  which is none of the listed strings.
\<close>

theorem source_tag_counterexample:
  "fst (get_cover cdn_env doom (new_manager ''cache'' None None) empty_world)
     = Inr (Some ''cache/782330.jpg'', ''Steam CDN'')
   \<and> ''Steam CDN'' \<notin> {''SteamGridDB'', ''SteamCDN'', ''RAWG'', ''SteamStoreSearch'', ''DuckDuckGo'',
      ''ExeIcon'', ''None''}"
  using run_cdn by (simp split: prod.splits)

text \<open>
  Claim C2 has \<^verbatim>\<open>get_cover\<close> never raise. With a SteamGridDB key configured, a grid answer
  of HTTP 200 whose 600x900 grid carries no \<^verbatim>\<open>url\<close> makes \<^verbatim>\<open>get_grids_by_steam_id\<close> raise
  \<^verbatim>\<open>KeyError\<close> outside every \<^verbatim>\<open>try\<close>, and the exception leaves \<^verbatim>\<open>get_cover\<close>.
\<close>

theorem get_cover_raises:
  "fst (get_cover bad_grid_env doom (new_manager ''cache'' (Some ''key'') None) empty_world)
     = Inl KeyError"
  using run_bad_grid by (simp split: prod.splits)

text \<open>
  Claim C3: two requests with the same (non-empty) stable identifier get the same cache
  path whatever their titles; two requests without identifier whose titles normalise to the
  same string get the same cache path. The path is the one \<^verbatim>\<open>_get_cache_path\<close> gives for
  the key.
\<close>

theorem cache_path_deterministic:
  "(truthy_str (app_id r1) \<and> app_id r2 = app_id r1
      \<longrightarrow> cover_cache_path e m r1 = cover_cache_path e m r2)
   \<and> (\<not> truthy_str (app_id r1) \<and> \<not> truthy_str (app_id r2)
        \<and> clean_name (game_title r1) = clean_name (game_title r2)
      \<longrightarrow> cover_cache_path e m r1 = cover_cache_path e m r2)
   \<and> cover_cache_path e m r1 = get_cache_path e (mgr_cache_dir m) (key_id e r1)"
  by (simp add: cover_cache_path_def key_id_def)

lemma clean_doom:
  "clean_name ''Doom Eternal [CODEX]'' = ''Doom Eternal''"
  "clean_name ''Doom.Eternal-FitGirl'' = ''Doom Eternal''"
  by code_simp+

theorem cache_path_deterministic_witness:
  "truthy_str (Some ''782330'')
   \<and> cover_cache_path sample_env (new_manager ''cache'' None None) doom
     = cover_cache_path sample_env (new_manager ''cache'' None None)
         (doom\<lparr>game_title := ''DOOM: Eternal''\<rparr>)
   \<and> clean_name ''Doom Eternal [CODEX]'' = clean_name ''Doom.Eternal-FitGirl''
   \<and> cover_cache_path sample_env (new_manager ''cache'' None None)
       \<lparr>game_title = ''Doom Eternal [CODEX]'', app_id = None, exe_path = None\<rparr>
     = cover_cache_path sample_env (new_manager ''cache'' None None)
         \<lparr>game_title = ''Doom.Eternal-FitGirl'', app_id = Some [], exe_path = None\<rparr>"
  using cache_path_deterministic [of doom "doom\<lparr>game_title := ''DOOM: Eternal''\<rparr>" sample_env
      "new_manager ''cache'' None None"]
    cache_path_deterministic [of
      "\<lparr>game_title = ''Doom Eternal [CODEX]'', app_id = None, exe_path = None\<rparr>"
      "\<lparr>game_title = ''Doom.Eternal-FitGirl'', app_id = Some [], exe_path = None\<rparr>"
      sample_env "new_manager ''cache'' None None"]
  by (simp add: clean_doom doom_def truthy_str_def)

text \<open>SteamGridDBClient: a 401 clears the key, and a client without key does no I/O.\<close>

lemma make_request_401:
  "truthy_str (sgdb_api_key c) \<Longrightarrow>
   urlopen e (length (io_log w)) (''https://www.steamgriddb.com/api/v2/'' @ endpoint) = HTTPError 401 \<Longrightarrow>
   make_request e endpoint c w =
     (JNull, c\<lparr>sgdb_api_key := None\<rparr>,
      attempt (HttpGet (''https://www.steamgriddb.com/api/v2/'' @ endpoint)) w)"
  by (simp add: make_request_def)

lemma make_request_disabled:
  "sgdb_api_key c = None \<Longrightarrow> make_request e endpoint c w = (JNull, c, w)"
  by (simp add: make_request_def truthy_str_def)

text \<open>
  Claim C5 for RAWGClient: \<^verbatim>\<open>search_game\<close> treats a 401 as any other failure. After a 401
  the key is still set, and the next query for another name goes to the network again.
\<close>

theorem rawg_not_disabled_by_401:
  "(case rawg_search_game unauthorized_env ''doom'' rawg0 empty_world of
      (r1, c1, w1) \<Rightarrow>
        r1 = JNull \<and> rawg_api_key c1 = Some ''badkey'' \<and> length (io_log w1) = 1 \<and>
        (case rawg_search_game unauthorized_env ''quake'' c1 w1 of
           (r2, c2, w2) \<Rightarrow> io_log w2 = io_log w1 @
             [HttpGet ''https://api.rawg.io/api/games?key=badkey&search=quake&search_precise=true&page_size=1&'']))"
  by code_simp


section \<open>Properties of the name normaliser\<close>

lemma sub_from_no_match: "\<not> has_match ic r prev s \<Longrightarrow> sub_from ic r prev s = s"
proof (induction s arbitrary: prev)
  case Nil
  then show ?case by simp
next
  case (Cons c cs)
  then show ?case
    by (cases "match_at ic r (prev, c # cs)") (auto split: nat.splits)
qed

lemma re_sub_no_match: "\<not> has_match ic r None s \<Longrightarrow> re_sub ic r s = s"
  by (simp add: re_sub_def sub_from_no_match)

lemma in_set_sub_from: "x \<in> set (sub_from ic r prev s) \<Longrightarrow> x \<in> set s"
  by (induction ic r prev s rule: sub_from.induct)
    (auto split: option.splits nat.splits dest: in_set_dropD)

lemma set_sub_from: "set (sub_from ic r prev s) \<subseteq> set s"
  using in_set_sub_from by blast

lemma set_re_sub: "set (re_sub ic r s) \<subseteq> set s"
  by (simp add: re_sub_def set_sub_from)

lemma set_strip_junk:
  "set (foldl (\<lambda>n j. re_sub True (whole_word j) n) s js) \<subseteq> set s"
proof (induction js arbitrary: s)
  case Nil
  then show ?case by simp
next
  case (Cons j js)
  have "set (foldl (\<lambda>n j. re_sub True (whole_word j) n) (re_sub True (whole_word j) s) js)
      \<subseteq> set (re_sub True (whole_word j) s)"
    by (rule Cons.IH)
  then show ?case using set_re_sub [of True "whole_word j" s] by auto
qed

lemma strip_junk_no_match:
  "\<forall>j \<in> set js. \<not> has_match True (whole_word j) None s \<Longrightarrow>
   foldl (\<lambda>n j. re_sub True (whole_word j) n) s js = s"
  by (induction js) (simp_all add: re_sub_no_match)

lemma set_split_from: "\<Union> (set ` set (split_from word s)) \<subseteq> set word \<union> set s"
  by (induction word s rule: split_from.induct) auto

lemma set_py_join: "set (py_join sep ws) \<subseteq> set sep \<union> \<Union> (set ` set ws)"
  by (induction sep ws rule: py_join.induct) auto

lemma set_collapse: "set (py_join '' '' (py_split s)) \<subseteq> insert CHR '' '' (set s)"
  using set_py_join [of "'' ''" "py_split s"] set_split_from [of "[]" s]
  by (auto simp: py_split_def)

lemma replace_char_absent: "a \<notin> set s \<Longrightarrow> replace_char a b s = s"
  by (induction s) (auto simp: replace_char_def)

lemma set_replace_char: "a \<noteq> b \<Longrightarrow> a \<notin> set (replace_char a b s)"
  by (auto simp: replace_char_def)

lemma set_replace_char_subset: "set (replace_char a b s) \<subseteq> insert b (set s)"
  by (auto simp: replace_char_def)

lemma clean_name_chars:
  "CHR ''.'' \<notin> set (clean_name x)" "CHR ''_'' \<notin> set (clean_name x)"
proof -
  let ?n0 = "replace_char CHR ''_'' CHR '' '' (replace_char CHR ''.'' CHR '' '' x)"
  have dot: "CHR ''.'' \<notin> set ?n0"
    using set_replace_char_subset [of "CHR ''_''" "CHR '' ''" "replace_char CHR ''.'' CHR '' '' x"]
      set_replace_char [of "CHR ''.''" "CHR '' ''" x]
    by auto
  have us: "CHR ''_'' \<notin> set ?n0" by (rule set_replace_char) simp
  have sub: "set (clean_name x) \<subseteq> insert CHR '' '' (set ?n0)"
    unfolding clean_name_def Let_def
    using set_collapse set_re_sub set_strip_junk
    by (meson dual_order.trans insert_mono)
  show "CHR ''.'' \<notin> set (clean_name x)" using sub dot by auto
  show "CHR ''_'' \<notin> set (clean_name x)" using sub us by auto
qed

lemma is_space_blank: "is_space CHR '' ''"
  by (simp add: is_space_def)

lemma split_from_word:
  "\<forall>c \<in> set w. \<not> is_space c \<Longrightarrow> split_from acc (w @ s) = split_from (rev w @ acc) s"
  by (induction w arbitrary: acc) simp_all

lemma split_from_words:
  "\<forall>c \<in> set acc. \<not> is_space c \<Longrightarrow> w \<in> set (split_from acc s) \<Longrightarrow> word_ok w"
proof (induction s arbitrary: acc)
  case Nil
  then show ?case by (cases "acc = []") (simp_all add: word_ok_def)
next
  case (Cons c cs)
  show ?case
  proof (cases "is_space c")
    case True
    show ?thesis
    proof (cases "acc = []")
      case True
      with \<open>is_space c\<close> Cons.prems(2) have "w \<in> set (split_from [] cs)" by simp
      then show ?thesis using Cons.IH [of "[]"] by simp
    next
      case False
      with \<open>is_space c\<close> Cons.prems(2)
      have "w = rev acc \<or> w \<in> set (split_from [] cs)" by simp
      then show ?thesis
      proof
        assume "w = rev acc"
        then show ?thesis using False Cons.prems(1) by (simp add: word_ok_def)
      next
        assume "w \<in> set (split_from [] cs)"
        then show ?thesis using Cons.IH [of "[]"] by simp
      qed
    qed
  next
    case False
    with Cons.prems(2) have "w \<in> set (split_from (c # acc) cs)" by simp
    moreover have "\<forall>d \<in> set (c # acc). \<not> is_space d" using False Cons.prems(1) by simp
    ultimately show ?thesis using Cons.IH [of "c # acc"] by blast
  qed
qed

lemma split_join:
  "\<forall>w \<in> set ws. word_ok w \<Longrightarrow> split_from [] (py_join '' '' ws) = ws"
proof (induction ws rule: induct_list012)
  case 1
  then show ?case by simp
next
  case (2 w)
  then have "split_from [] (w @ []) = split_from (rev w) []"
    using split_from_word [of w "[]" "[]"] by (simp add: word_ok_def)
  then show ?case using 2 by (simp add: word_ok_def)
next
  case (3 w v vs)
  have w: "word_ok w" and rest: "\<forall>u \<in> set (v # vs). word_ok u" using 3(3) by simp_all
  have "split_from [] (w @ '' '' @ py_join '' '' (v # vs))
      = split_from (rev w) ('' '' @ py_join '' '' (v # vs))"
    using split_from_word [of w "[]"] w by (simp add: word_ok_def)
  also have "\<dots> = w # split_from [] (py_join '' '' (v # vs))"
    using w by (simp add: is_space_blank word_ok_def)
  also have "\<dots> = w # v # vs" using 3(2) rest by simp
  finally show ?case by simp
qed

lemma collapse_idem:
  "py_join '' '' (py_split (py_join '' '' (py_split s))) = py_join '' '' (py_split s)"
proof -
  have "\<forall>w \<in> set (py_split s). word_ok w"
    unfolding py_split_def using split_from_words [of "[]"] by simp
  then show ?thesis by (simp add: py_split_def split_join)
qed

text \<open>
  Claim C7, as the code has it: \<^verbatim>\<open>_clean_name\<close> is a total function (it returns a string
  for every input), and it is idempotent at every input whose normalised form holds nothing
  that the normaliser removes: no junk token, no bracketed or parenthesised span, no
  separator run at either end.
\<close>

theorem clean_name_stable:
  assumes "\<not> has_junk (clean_name x)"
  shows "clean_name (clean_name x) = clean_name x"
proof -
  let ?y = "clean_name x"
  have r: "replace_char CHR ''_'' CHR '' '' (replace_char CHR ''.'' CHR '' '' ?y) = ?y"
    by (simp add: replace_char_absent clean_name_chars)
  have j: "foldl (\<lambda>n j. re_sub True (whole_word j) n) ?y junk = ?y"
    using assms by (intro strip_junk_no_match) (simp add: has_junk_def)
  have s: "re_sub False bracketed ?y = ?y" "re_sub False year_parens ?y = ?y"
      "re_sub False parenthesised ?y = ?y" "re_sub False edge_separators ?y = ?y"
    using assms by (simp_all add: has_junk_def re_sub_no_match)
  have "clean_name ?y = py_join '' '' (py_split ?y)"
    by (subst (1) clean_name_def) (simp only: Let_def r j s)
  also have "\<dots> = ?y"
    unfolding clean_name_def Let_def by (rule collapse_idem)
  finally show ?thesis .
qed

lemma clean_demo: "clean_name ''De[x]mo'' = ''Demo''" "clean_name ''Demo'' = []"
  by code_simp+

lemma no_junk_doom: "\<not> has_junk ''Doom Eternal''"
  by code_simp


theorem clean_name_stable_witness:
  "\<not> has_junk (clean_name ''Doom Eternal [CODEX]'')
   \<and> clean_name (clean_name ''Doom Eternal [CODEX]'') = clean_name ''Doom Eternal [CODEX]''
   \<and> clean_name ''Doom Eternal [CODEX]'' = ''Doom Eternal''"
  using clean_name_stable [of "''Doom Eternal [CODEX]''"] no_junk_doom
  by (simp add: clean_doom)

text \<open>
  Claim C7 as stated has \<^verbatim>\<open>_clean_name\<close> idempotent on every input. Removing the bracketed
  span of \<^verbatim>\<open>De[x]mo\<close> leaves \<^verbatim>\<open>Demo\<close>, which is itself a junk token: a second pass
  returns the empty string.
\<close>

theorem clean_name_not_idempotent:
  "clean_name ''De[x]mo'' = ''Demo''
   \<and> clean_name (clean_name ''De[x]mo'') = []
   \<and> clean_name (clean_name ''De[x]mo'') \<noteq> clean_name ''De[x]mo''"
  by (simp add: clean_demo)

text \<open>The example of the specification, \<^verbatim>\<open>Game.Name.v1.2.CODEX\<close>: the dots are replaced
  before the version pattern is tried, so the version token that goes is \<^verbatim>\<open>v1\<close> only.\<close>

lemma clean_name_spec_example: "clean_name ''Game.Name.v1.2.CODEX'' = ''Game Name 2''"
  by code_simp

end
